theory Spec2Isabelle
  imports Complex_Main
begin

section \<open>JavaScript numbers\<close>

text \<open>
  The expressions compute with JavaScript numbers. A number is modelled as a real, or one
  of the three non-finite values. Arithmetic on finite values is exact: the rounding of
  IEEE doubles is not modelled, and zero carries no sign (the divisors of the modelled
  code, \<open>bTime - aTime\<close> and \<open>maxKey - minKey\<close>, are never a negative zero).
  \<open>undefined\<close> that reaches arithmetic or \<open>Math.round\<close> becomes \<open>NaN\<close> there, so a read
  that yields \<open>undefined\<close> is modelled as yielding \<open>NaN\<close>.
\<close>

datatype jsnum = Num real | PInf | NInf | NaN

fun jneg :: "jsnum \<Rightarrow> jsnum" where
  "jneg (Num x) = Num (- x)"
| "jneg PInf = NInf"
| "jneg NInf = PInf"
| "jneg NaN = NaN"

fun jadd :: "jsnum \<Rightarrow> jsnum \<Rightarrow> jsnum" where
  "jadd (Num x) (Num y) = Num (x + y)"
| "jadd NaN _ = NaN"
| "jadd _ NaN = NaN"
| "jadd PInf NInf = NaN"
| "jadd NInf PInf = NaN"
| "jadd PInf _ = PInf"
| "jadd _ PInf = PInf"
| "jadd NInf _ = NInf"
| "jadd _ NInf = NInf"

definition jsub :: "jsnum \<Rightarrow> jsnum \<Rightarrow> jsnum" where
  "jsub x y = jadd x (jneg y)"

fun jmul :: "jsnum \<Rightarrow> jsnum \<Rightarrow> jsnum" where
  "jmul (Num x) (Num y) = Num (x * y)"
| "jmul NaN _ = NaN"
| "jmul _ NaN = NaN"
| "jmul (Num x) i = (if x = 0 then NaN else if 0 < x then i else jneg i)"
| "jmul i (Num y) = (if y = 0 then NaN else if 0 < y then i else jneg i)"
| "jmul PInf i = i"
| "jmul NInf i = jneg i"

fun jdiv :: "jsnum \<Rightarrow> jsnum \<Rightarrow> jsnum" where
  "jdiv (Num x) (Num y) =
     (if y \<noteq> 0 then Num (x / y)
      else if 0 < x then PInf else if x < 0 then NInf else NaN)"
| "jdiv NaN _ = NaN"
| "jdiv _ NaN = NaN"
| "jdiv (Num x) _ = Num 0"
| "jdiv i (Num y) = (if 0 \<le> y then i else jneg i)"
| "jdiv _ _ = NaN"

text \<open>\<open>Math.floor\<close>, \<open>Math.ceil\<close>, and \<open>Math.round\<close> (which rounds halves upwards).\<close>

fun jfloor :: "jsnum \<Rightarrow> jsnum" where
  "jfloor (Num x) = Num (of_int \<lfloor>x\<rfloor>)"
| "jfloor i = i"

fun jceil :: "jsnum \<Rightarrow> jsnum" where
  "jceil (Num x) = Num (of_int \<lceil>x\<rceil>)"
| "jceil i = i"

fun jround :: "jsnum \<Rightarrow> jsnum" where
  "jround (Num x) = Num (of_int \<lfloor>x + 1 / 2\<rfloor>)"
| "jround i = i"

text \<open>\<open>Math.min\<close> and \<open>Math.max\<close>: \<open>NaN\<close> as soon as one argument is \<open>NaN\<close>.\<close>

fun jmin :: "jsnum \<Rightarrow> jsnum \<Rightarrow> jsnum" where
  "jmin (Num x) (Num y) = Num (min x y)"
| "jmin NaN _ = NaN"
| "jmin _ NaN = NaN"
| "jmin NInf _ = NInf"
| "jmin _ NInf = NInf"
| "jmin PInf y = y"
| "jmin x PInf = x"

fun jmax :: "jsnum \<Rightarrow> jsnum \<Rightarrow> jsnum" where
  "jmax (Num x) (Num y) = Num (max x y)"
| "jmax NaN _ = NaN"
| "jmax _ NaN = NaN"
| "jmax PInf _ = PInf"
| "jmax _ PInf = PInf"
| "jmax NInf y = y"
| "jmax x NInf = x"

text \<open>The comparisons \<open><\<close>, \<open><=\<close> and \<open>>\<close>: false as soon as one side is \<open>NaN\<close>.\<close>

fun jlt :: "jsnum \<Rightarrow> jsnum \<Rightarrow> bool" where
  "jlt (Num x) (Num y) = (x < y)"
| "jlt NaN _ = False"
| "jlt _ NaN = False"
| "jlt PInf _ = False"
| "jlt _ NInf = False"
| "jlt NInf _ = True"
| "jlt _ PInf = True"

fun jle :: "jsnum \<Rightarrow> jsnum \<Rightarrow> bool" where
  "jle (Num x) (Num y) = (x \<le> y)"
| "jle NaN _ = False"
| "jle _ NaN = False"
| "jle NInf _ = True"
| "jle _ PInf = True"
| "jle PInf _ = False"
| "jle _ NInf = False"

definition jgt :: "jsnum \<Rightarrow> jsnum \<Rightarrow> bool" where
  "jgt x y = jlt y x"

text \<open>\<open>Number.isNaN\<close>, \<open>Number.isFinite\<close>, and the truthiness of a number.\<close>

definition isNaN :: "jsnum \<Rightarrow> bool" where
  "isNaN x = (x = NaN)"

fun isFinite :: "jsnum \<Rightarrow> bool" where
  "isFinite (Num x) = True"
| "isFinite i = False"

fun truthy :: "jsnum \<Rightarrow> bool" where
  "truthy (Num x) = (x \<noteq> 0)"
| "truthy NaN = False"
| "truthy i = True"

section \<open>Errors\<close>

text \<open>
  Every \<open>throw\<close> of the source is a value of this type; a function that can throw returns
  \<open>error + 'a\<close>. The messages built by \<open>getStringErrorPreface\<close> (not among the sources) are
  kept as the function and parameter they name plus the literal text of the source.
\<close>

datatype error =
    InvalidNumber string string
  | ValidationError string string string
  | TypeError string
  | Error string

section \<open>Animate\<close>

text \<open>
  \<open>animate.js\<close>. The fields are those the constructor sets; \<open>mix\<close> is \<open>undefined\<close>
  (\<open>None\<close>) until \<open>eval\<close> or \<open>_preDraw\<close> stores it. \<open>Date.now()\<close> is an argument: the
  integer number of milliseconds the clock shows at the call.
\<close>

record animate =
  aTime :: jsnum
  bTime :: jsnum
  mix :: "jsnum option"

text \<open>
  Modelled from the spec: \<open>checkNumber\<close> of \<open>utils\<close> is not among the sources; the
  duration is "milliseconds, \<open>\<ge> 0\<close>; fails with a validation error otherwise". The
  constructor's own test refuses the negative durations; the one number left that is not
  \<open>\<ge> 0\<close> is \<open>NaN\<close>, so the check refuses \<open>NaN\<close> and passes every other number, \<open>+Infinity\<close>
  among them.
\<close>

definition checkNumber :: "jsnum \<Rightarrow> bool" where
  "checkNumber x = (\<not> isNaN x)"

definition Animate_new :: "int \<Rightarrow> jsnum \<Rightarrow> error + animate" where
  "Animate_new now duration =
     (if \<not> checkNumber duration then Inl (InvalidNumber ''animate'' ''duration'')
      else if jlt duration (Num 0)
        then Inl (ValidationError ''animate'' ''duration''
                    ''duration must be greater than or equal to 0'')
      else Inr \<lparr> aTime = Num (of_int now),
                 bTime = jadd (Num (of_int now)) duration,
                 mix = None \<rparr>)"

text \<open>The progress both \<open>eval\<close> and \<open>_preDraw\<close> compute from the clock.\<close>

definition progress :: "animate \<Rightarrow> int \<Rightarrow> jsnum" where
  "progress a time = jdiv (jsub (Num (of_int time)) (aTime a)) (jsub (bTime a) (aTime a))"

text \<open>\<open>eval\<close> stores the progress in \<open>mix\<close> and returns \<open>Math.min(this.mix, 1.)\<close>.\<close>

definition Animate_eval :: "int \<Rightarrow> animate \<Rightarrow> jsnum \<times> animate" where
  "Animate_eval time a =
     (let m = progress a time in (jmin m (Num 1), a\<lparr> mix := Some m \<rparr>))"



section \<open>Ramp: the data\<close>

text \<open>
  The second source file (the ramp expression). The constants of its head.
\<close>

datatype paletteType = PALETTE | COLOR_ARRAY | NUMBER_ARRAY | IMAGE | PALETTE_UNTYPED

datatype rampType = RAMP_COLOR | RAMP_NUMBER

datatype inputType = INPUT_NUMBER | INPUT_CATEGORY | INPUT_OTHER

definition DEFAULT_OTHERS_NAME :: string where
  "DEFAULT_OTHERS_NAME = ''Others''"

definition COLOR_ARRAY_LENGTH :: nat where
  "COLOR_ARRAY_LENGTH = 256"

definition MAX_BYTE_VALUE :: real where
  "MAX_BYTE_VALUE = 255"

text \<open>
  A colour is the object \<open>{r, g, b, a}\<close>; the fields are written \<open>cr\<close>, \<open>cg\<close>, \<open>cb\<close>, \<open>ca\<close>.
  An element of an evaluated palette is a number or a colour.
\<close>

record color =
  cr :: jsnum
  cg :: jsnum
  cb :: jsnum
  ca :: jsnum

datatype jsval = N jsnum | C color

text \<open>What a ramp evaluates to: a colour, a number, or the URL of an image.\<close>

datatype rampValue = ColorV color | NumberV jsnum | UrlV string

text \<open>
  \<open>xs[i]\<close> for an index that is a JavaScript number: \<open>undefined\<close> (\<open>None\<close>) unless the index
  is an integer within the array. \<open>numAt\<close> is the read of a typed array whose result goes
  to arithmetic or \<open>Math.round\<close>, where \<open>undefined\<close> is \<open>NaN\<close>.
\<close>

definition elemAt :: "'a list \<Rightarrow> jsnum \<Rightarrow> 'a option" where
  "elemAt xs i =
     (case i of
        Num x \<Rightarrow> if x = of_int \<lfloor>x\<rfloor> \<and> 0 \<le> x \<and> nat \<lfloor>x\<rfloor> < length xs
                 then Some (xs ! nat \<lfloor>x\<rfloor>) else None
      | _ \<Rightarrow> None)"

definition numAt :: "jsnum list \<Rightarrow> jsnum \<Rightarrow> jsnum" where
  "numAt xs i = (case elemAt xs i of Some v \<Rightarrow> v | None \<Rightarrow> NaN)"

fun toNum :: "jsval option \<Rightarrow> jsnum" where
  "toNum (Some (N x)) = x"
| "toNum _ = NaN"

text \<open>
  The fields \<open>r\<close>, \<open>g\<close>, \<open>b\<close>, \<open>a\<close> read off a palette element: reading them off
  \<open>undefined\<close> throws, reading them off a number gives \<open>undefined\<close> four times.
\<close>

fun channels :: "jsval option \<Rightarrow> error + color" where
  "channels None = Inl (TypeError ''Cannot read properties of undefined'')"
| "channels (Some (C c)) = Inr c"
| "channels (Some (N x)) = Inr \<lparr> cr = NaN, cg = NaN, cb = NaN, ca = NaN \<rparr>"

text \<open>A store into a \<open>Uint8Array\<close>: truncated, modulo 256; 0 for a non-finite value.\<close>

fun toUint8 :: "jsnum \<Rightarrow> jsnum" where
  "toUint8 (Num x) = Num (of_int ((if 0 \<le> x then \<lfloor>x\<rfloor> else \<lceil>x\<rceil>) mod 256))"
| "toUint8 i = Num 0"

text \<open>A value that may be \<open>null\<close>.\<close>

datatype 'a nullable = Null | Val 'a

text \<open>Sequencing of computations that may throw.\<close>

definition bindE :: "error + 'a \<Rightarrow> ('a \<Rightarrow> error + 'b) \<Rightarrow> error + 'b" where
  "bindE m f = (case m of Inl e \<Rightarrow> Inl e | Inr x \<Rightarrow> f x)"

fun sequenceE :: "(error + 'a) list \<Rightarrow> error + 'a list" where
  "sequenceE [] = Inr []"
| "sequenceE (x # xs) =
     (case x of
        Inl e \<Rightarrow> Inl e
      | Inr v \<Rightarrow> (case sequenceE xs of Inl e \<Rightarrow> Inl e | Inr vs \<Rightarrow> Inr (v # vs)))"

subsection \<open>The palette and the input expression\<close>

text \<open>
  The palette and input classes are not among the sources. A palette is the record of
  what the ramp reads off it: its \<open>type\<close>, the fields \<open>floats\<close> and \<open>colors\<close> that
  \<open>_calcPaletteValues\<close> assigns, the outcome of \<open>palette.eval()\<close> (\<open>Inl\<close> when it throws), the
  answer of \<open>palette.isAnimated()\<close>, and the URLs of \<open>image0\<close>, \<open>image1\<close>, ... of an image
  list.
\<close>

record palette =
  ptype :: paletteType
  floats :: "jsval list option"
  colors :: "jsval list option"
  peval :: "error + jsval list"
  pAnimated :: bool
  imageUrls :: "string list"

text \<open>
  The dataset metadata, as far as the ramp reads it: the type of each property, and the
  sample of features (each a list of property values).
\<close>

record metadata =
  properties :: "(string \<times> inputType) list"
  sample :: "(string \<times> jsnum) list list"

type_synonym feature = "(string \<times> jsnum) list"

text \<open>
  An input expression: the class it is an instance of (what \<open>isA\<close> tests), the fields the
  ramp reads (\<open>type\<close>, \<open>numCategories\<close>, \<open>numBuckets\<close>, \<open>name\<close>, the names of
  \<open>getCategories()\<close>, the names of \<open>list.elems\<close>), its \<open>eval\<close>, the metadata it was bound to,
  and its own \<open>input\<close> when it wraps another expression.
\<close>

datatype exprClass = Property | Linear | Top | Buckets | Classifier | OtherExpression

record exprAttrs =
  cls :: exprClass
  etype :: inputType
  numCategories :: "nat option"
  numBuckets :: "nat option"
  name :: "string option"
  categories :: "string option list"
  listElems :: "string option list option"
  evalIn :: "feature \<Rightarrow> error + jsnum"
  boundTo :: "metadata option"

datatype expr = Expr (attrs: exprAttrs) (inputOf: "expr option")

definition isA :: "expr \<Rightarrow> exprClass \<Rightarrow> bool" where
  "isA e c = (cls (attrs e) = c)"

text \<open>\<open>input.numCategories - 1\<close>: \<open>NaN\<close> when the field is \<open>undefined\<close>.\<close>

definition numCategoriesMinus1 :: "expr \<Rightarrow> jsnum" where
  "numCategoriesMinus1 e =
     (case numCategories (attrs e) of Some n \<Rightarrow> Num (of_nat n - 1) | None \<Rightarrow> NaN)"

subsection \<open>The ramp\<close>

text \<open>
  The fields of a ramp. \<open>_texCategories\<close> and \<open>_GLtexCategories\<close> are \<open>undefined\<close>
  (\<open>Val None\<close>) until \<open>_bindMetadata\<close> sets them to \<open>null\<close>; \<open>texture\<close> holds the pixels last
  handed to the GL texture.
\<close>

record ramp =
  input :: expr
  palette :: palette
  minKey :: jsnum
  maxKey :: jsnum
  rtype :: rampType
  cachedTexturePixels :: "jsnum list option"
  texCategories :: "nat option nullable"
  GLtexCategories :: "nat option nullable"
  metadataOf :: "metadata option"
  texture :: "jsnum list option"

text \<open>
  What the ramp calls and the sources do not hold, as parameters of the model:
  \<^item> \<open>fround\<close>: the conversion to single precision that a store into a \<open>Float32Array\<close> makes;
  \<^item> \<open>interpolateRGBAinCieLAB\<close> of \<open>colorspaces\<close>;
  \<^item> \<open>getColorsFromPalette\<close>: the selection of the colours to interpolate between
    (\<open>_getColorsFromPalette\<close> and its helpers, which rest on the palette classes, on
    \<open>NamedColor\<close> and on the classifier classes); its arguments are the input, the palette
    and \<open>maxKey\<close>;
  \<^item> \<open>constructorChecks\<close>: the casts and checks of \<open>utils\<close> that open the constructor
    (\<open>Some\<close> the error of the first that throws);
  \<^item> \<open>checkType\<close>, \<open>checkInstance\<close>: the checks \<open>_bindMetadata\<close> makes, likewise;
  \<^item> \<open>bindNode\<close>, \<open>bindPalette\<close>: \<open>_bindMetadata\<close> of the input and palette classes;
  \<^item> \<open>linearAttrs\<close>: the fields that the constructor of \<open>Linear\<close> gives a new node;
  \<^item> \<open>sortNumbers\<close>: \<open>Array.prototype.sort\<close> with the comparator \<open>a - b\<close>.
\<close>

record env =
  fround :: "jsnum \<Rightarrow> jsnum"
  interpolateRGBAinCieLAB :: "color \<Rightarrow> color \<Rightarrow> jsnum \<Rightarrow> color"
  getColorsFromPalette :: "expr \<Rightarrow> palette \<Rightarrow> jsnum \<Rightarrow> error + jsval list"
  constructorChecks :: "expr \<Rightarrow> palette \<Rightarrow> error option"
  checkType :: "inputType list \<Rightarrow> expr \<Rightarrow> error option"
  checkInstance :: "palette \<Rightarrow> error option"
  bindNode :: "metadata \<Rightarrow> expr \<Rightarrow> error + expr"
  bindPalette :: "metadata \<Rightarrow> palette \<Rightarrow> error + palette"
  linearAttrs :: "expr \<Rightarrow> exprAttrs"
  sortNumbers :: "jsnum list \<Rightarrow> jsnum list"

section \<open>Ramp: the operations\<close>

subsection \<open>Palette values\<close>

text \<open>
  \<open>_calcPaletteValues\<close>: the palette is evaluated only when its type is \<open>number-array\<close> or
  \<open>color-array\<close>; whatever the evaluation throws is replaced by one error.
\<close>

definition constantPaletteError :: error where
  "constantPaletteError =
     Error ''Palettes must be formed by constant expressions, they cannot depend on feature properties''"

definition calcPaletteValues :: "palette \<Rightarrow> error + palette" where
  "calcPaletteValues p =
     (if ptype p = NUMBER_ARRAY then
        (case peval p of
           Inl e \<Rightarrow> Inl constantPaletteError
         | Inr v \<Rightarrow> Inr (p\<lparr> floats := Some v \<rparr>))
      else if ptype p = COLOR_ARRAY then
        (case peval p of
           Inl e \<Rightarrow> Inl constantPaletteError
         | Inr v \<Rightarrow> Inr (p\<lparr> colors := Some v \<rparr>))
      else Inr p)"

subsection \<open>The constructor\<close>

definition Ramp_new :: "env \<Rightarrow> expr \<Rightarrow> palette \<Rightarrow> error + ramp" where
  "Ramp_new env inp pal =
     (case constructorChecks env inp pal of
        Some e \<Rightarrow> Inl e
      | None \<Rightarrow>
          bindE (calcPaletteValues pal) (\<lambda>p.
            Inr \<lparr> input = inp, palette = p, minKey = Num 0, maxKey = Num 1,
                  rtype = (if ptype p = NUMBER_ARRAY then RAMP_NUMBER else RAMP_COLOR),
                  cachedTexturePixels = None, texCategories = Val None,
                  GLtexCategories = Val None, metadataOf = None, texture = None \<rparr>))"

subsection \<open>Lookup\<close>

text \<open>
  Modelled from the spec: \<open>clamp\<close> of \<open>utils\<close> is not among the sources; the numeric lookup
  "clamps both bracketing table indices into \<open>[0, tableLength - 1]\<close>": the value is
  brought into the interval between the two bounds, as \<open>Math.min(Math.max(x, lo), hi)\<close>.
\<close>

definition clamp :: "jsnum \<Rightarrow> jsnum \<Rightarrow> jsnum \<Rightarrow> jsnum" where
  "clamp x lo hi = jmin (jmax x lo) hi"

definition getValue :: "jsnum list \<Rightarrow> jsnum \<Rightarrow> jsnum \<Rightarrow> jsnum" where
  "getValue texturePixels numValues m =
     (let lowIndex = clamp (jfloor (jmul numValues m)) (Num 0) numValues;
          highIndex = clamp (jceil (jmul numValues m)) (Num 0) numValues;
          fract = jsub (jmul numValues m) (jfloor (jmul numValues m));
          low = numAt texturePixels lowIndex;
          high = numAt texturePixels highIndex
      in jround (jadd (jmul fract high) (jmul (jsub (Num 1) fract) low)))"

definition getColorValue :: "jsnum list \<Rightarrow> jsnum \<Rightarrow> color" where
  "getColorValue texturePixels m =
     (let index = jround (jmul m (Num MAX_BYTE_VALUE))
      in \<lparr> cr = jround (numAt texturePixels (jadd (jmul index (Num 4)) (Num 0))),
            cg = jround (numAt texturePixels (jadd (jmul index (Num 4)) (Num 1))),
            cb = jround (numAt texturePixels (jadd (jmul index (Num 4)) (Num 2))),
            ca = jdiv (jround (numAt texturePixels (jadd (jmul index (Num 4)) (Num 3))))
                      (Num MAX_BYTE_VALUE) \<rparr>)"

subsection \<open>Building the table\<close>

text \<open>
  One turn of the loop of \<open>_computeColorRampTexture\<close>: the four bytes of table entry \<open>i\<close>.
\<close>

definition colorRampPixel :: "env \<Rightarrow> jsval list \<Rightarrow> nat \<Rightarrow> error + jsnum list" where
  "colorRampPixel env cols i =
     (let pos = Num (of_nat i / (of_nat COLOR_ARRAY_LENGTH - 1) * (of_nat (length cols) - 1))
      in bindE (channels (elemAt cols (jfloor pos))) (\<lambda>vColorARaw.
         bindE (channels (elemAt cols (jceil pos))) (\<lambda>vColorBRaw.
           let vColorA = \<lparr> cr = jdiv (cr vColorARaw) (Num (of_nat COLOR_ARRAY_LENGTH - 1)),
                           cg = jdiv (cg vColorARaw) (Num (of_nat COLOR_ARRAY_LENGTH - 1)),
                           cb = jdiv (cb vColorARaw) (Num (of_nat COLOR_ARRAY_LENGTH - 1)),
                           ca = ca vColorARaw \<rparr>;
               vColorB = \<lparr> cr = jdiv (cr vColorBRaw) (Num (of_nat COLOR_ARRAY_LENGTH - 1)),
                           cg = jdiv (cg vColorBRaw) (Num (of_nat COLOR_ARRAY_LENGTH - 1)),
                           cb = jdiv (cb vColorBRaw) (Num (of_nat COLOR_ARRAY_LENGTH - 1)),
                           ca = ca vColorBRaw \<rparr>;
               m = jsub pos (jfloor pos);
               v = interpolateRGBAinCieLAB env vColorA vColorB m
           in Inr [toUint8 (jround (jmul (cr v) (Num MAX_BYTE_VALUE))),
                   toUint8 (jround (jmul (cg v) (Num MAX_BYTE_VALUE))),
                   toUint8 (jround (jmul (cb v) (Num MAX_BYTE_VALUE))),
                   toUint8 (jround (jmul (ca v) (Num MAX_BYTE_VALUE)))])))"

definition computeColorRampTexture :: "env \<Rightarrow> ramp \<Rightarrow> error + jsnum list \<times> ramp" where
  "computeColorRampTexture env r =
     bindE (if pAnimated (palette r) then calcPaletteValues (palette r) else Inr (palette r))
       (\<lambda>p. let r1 = r\<lparr> palette := p \<rparr>
            in bindE (getColorsFromPalette env (input r1) (palette r1) (maxKey r1)) (\<lambda>cols.
               bindE (sequenceE (map (colorRampPixel env cols) [0..<COLOR_ARRAY_LENGTH]))
                 (\<lambda>px. Inr (concat px, r1))))"

text \<open>One turn of the loop of \<open>_computeNumericRampTexture\<close>: table entry \<open>i\<close>.\<close>

definition numericRampPixel :: "env \<Rightarrow> jsval list \<Rightarrow> nat \<Rightarrow> jsnum" where
  "numericRampPixel env fs i =
     (let pos = Num (of_nat i / (of_nat COLOR_ARRAY_LENGTH - 1) * (of_nat (length fs) - 1));
          vColorARaw = toNum (elemAt fs (jfloor pos));
          vColorBRaw = toNum (elemAt fs (jceil pos));
          m = jsub pos (jfloor pos)
      in fround env (jadd (jmul (jsub (Num 1) m) vColorARaw) (jmul m vColorBRaw)))"

definition computeNumericRampTexture :: "env \<Rightarrow> ramp \<Rightarrow> error + jsnum list" where
  "computeNumericRampTexture env r =
     (case floats (palette r) of
        None \<Rightarrow> Inl (TypeError ''Cannot read properties of undefined'')
      | Some fs \<Rightarrow> Inr (map (numericRampPixel env fs) [0..<COLOR_ARRAY_LENGTH]))"

text \<open>
  \<open>_computeTextureIfNeeded\<close>: the cached table is returned when there is one and the
  palette is not animated; otherwise the table is built and cached.
\<close>

definition computeTextureIfNeeded :: "env \<Rightarrow> ramp \<Rightarrow> error + jsnum list \<times> ramp" where
  "computeTextureIfNeeded env r =
     (let build =
        (let r1 = r\<lparr> texCategories := Val (numCategories (attrs (input r))) \<rparr>;
             r2 = (if etype (attrs (input r1)) = INPUT_CATEGORY
                   then r1\<lparr> maxKey := numCategoriesMinus1 (input r1) \<rparr> else r1)
         in bindE (if rtype r2 = RAMP_COLOR then computeColorRampTexture env r2
                   else bindE (computeNumericRampTexture env r2) (\<lambda>t. Inr (t, r2)))
              (\<lambda>(t, r3). Inr (t, r3\<lparr> cachedTexturePixels := Some t \<rparr>)))
      in case cachedTexturePixels r of
           Some t \<Rightarrow> if \<not> pAnimated (palette r) then Inr (t, r) else build
         | None \<Rightarrow> build)"

text \<open>
  \<open>_computeGLTextureIfNeeded\<close>: a GL texture is created and filled with the table when the
  category count of the input differs from the one recorded, or the palette is animated.
\<close>

definition computeGLTextureIfNeeded :: "env \<Rightarrow> ramp \<Rightarrow> error + ramp" where
  "computeGLTextureIfNeeded env r =
     bindE (computeTextureIfNeeded env r) (\<lambda>(texturePixels, r1).
       let isAnimatedPalette = pAnimated (palette r1)
       in if GLtexCategories r1 \<noteq> Val (numCategories (attrs (input r1))) \<or> isAnimatedPalette
          then Inr (r1\<lparr> GLtexCategories := Val (numCategories (attrs (input r1))),
                        texture := Some texturePixels \<rparr>)
          else Inr r1)"

subsection \<open>Evaluation\<close>

definition Ramp_eval :: "env \<Rightarrow> ramp \<Rightarrow> feature \<Rightarrow> error + rampValue \<times> ramp" where
  "Ramp_eval env r feat =
     bindE (calcPaletteValues (palette r)) (\<lambda>p.
     bindE (computeTextureIfNeeded env (r\<lparr> palette := p \<rparr>)) (\<lambda>(texturePixels, r1).
     bindE (evalIn (attrs (input r1)) feat) (\<lambda>inp.
       let numValues = Num (of_nat (length texturePixels) - 1);
           m = jdiv (jsub inp (minKey r1)) (jsub (maxKey r1) (minKey r1))
       in Inr (if rtype r1 = RAMP_NUMBER
               then NumberV (getValue texturePixels numValues m)
               else ColorV (getColorValue texturePixels m), r1))))"

subsection \<open>The legend\<close>

text \<open>
  An entry of the legend: \<open>name\<close> (\<open>ename\<close>; \<open>None\<close> is \<open>undefined\<close>) and \<open>values\<close>
  (\<open>None\<close> is \<open>null\<close>). The options of \<open>getLegend\<close> are an object with string fields.
\<close>

record legendEntry =
  ename :: "string option"
  values' :: "rampValue list option"

type_synonym options = "(string \<times> string) list"

definition anyChannelNaN :: "rampValue \<Rightarrow> bool" where
  "anyChannelNaN v =
     (case v of
        ColorV c \<Rightarrow> isNaN (cr c) \<or> isNaN (cg c) \<or> isNaN (cb c) \<or> isNaN (ca c)
      | _ \<Rightarrow> False)"

definition getRampValueByIndex :: "env \<Rightarrow> ramp \<Rightarrow> nat \<Rightarrow> error + rampValue option \<times> ramp" where
  "getRampValueByIndex env r index =
     (if ptype (palette r) = IMAGE then
        Inr (if index < length (imageUrls (palette r))
             then Some (UrlV (imageUrls (palette r) ! index)) else None, r)
      else
        bindE (calcPaletteValues (palette r)) (\<lambda>p.
        bindE (computeTextureIfNeeded env (r\<lparr> palette := p \<rparr>)) (\<lambda>(texturePixels, r1).
          let numValues = Num (of_nat (length texturePixels) - 1);
              m = jdiv (jsub (Num (of_nat index)) (minKey r1)) (jsub (maxKey r1) (minKey r1));
              color = (if rtype r1 = RAMP_NUMBER
                       then NumberV (getValue texturePixels numValues m)
                       else ColorV (getColorValue texturePixels m))
          in Inr (if anyChannelNaN color then None else Some color, r1))))"

definition getCategoryName :: "string option \<Rightarrow> string" where
  "getCategoryName n =
     (case n of None \<Rightarrow> DEFAULT_OTHERS_NAME
      | Some s \<Rightarrow> if s = [] then DEFAULT_OTHERS_NAME else s)"

text \<open>\<open>value ? [ value ] : null\<close>: \<open>null\<close>, 0, \<open>NaN\<close> and the empty string are falsy.\<close>

definition valuesOf :: "rampValue option \<Rightarrow> rampValue list option" where
  "valuesOf v =
     (case v of
        None \<Rightarrow> None
      | Some (ColorV c) \<Rightarrow> Some [ColorV c]
      | Some (NumberV x) \<Rightarrow> if truthy x then Some [NumberV x] else None
      | Some (UrlV u) \<Rightarrow> if u = [] then None else Some [UrlV u])"

definition getLegendItemValue ::
  "env \<Rightarrow> ramp \<Rightarrow> string option \<Rightarrow> nat \<Rightarrow> error + legendEntry \<times> ramp" where
  "getLegendItemValue env r category index =
     bindE (getRampValueByIndex env r index) (\<lambda>(v, r1).
       Inr (\<lparr> ename = Some (getCategoryName category), values' = valuesOf v \<rparr>, r1))"

definition getLegendCategoryValue ::
  "env \<Rightarrow> ramp \<Rightarrow> string option \<Rightarrow> nat \<Rightarrow> options \<Rightarrow> error + legendEntry \<times> ramp" where
  "getLegendCategoryValue env r category index opts =
     bindE (getRampValueByIndex env r index) (\<lambda>(v, r1).
       if isA (input r1) Top \<and> numBuckets (attrs (input r1)) = Some index
       then Inr (\<lparr> ename = Some (case map_of opts ''defaultOthers'' of
                                   None \<Rightarrow> DEFAULT_OTHERS_NAME
                                 | Some s \<Rightarrow> if s = [] then DEFAULT_OTHERS_NAME else s),
                    values' = valuesOf v \<rparr>, r1)
       else Inr (\<lparr> ename = Some (getCategoryName category), values' = valuesOf v \<rparr>, r1))"

text \<open>
  \<open>Array.prototype.map\<close> over the categories with their indices; each call may rebuild
  the table, so the ramp is handed from one call to the next.
\<close>

fun mapLegend ::
  "(ramp \<Rightarrow> 'c \<Rightarrow> nat \<Rightarrow> error + legendEntry \<times> ramp) \<Rightarrow> ramp \<Rightarrow> 'c list \<Rightarrow> nat
     \<Rightarrow> error + legendEntry list \<times> ramp" where
  "mapLegend f r [] i = Inr ([], r)"
| "mapLegend f r (c # cs) i =
     (case f r c i of
        Inl e \<Rightarrow> Inl e
      | Inr (entry, r1) \<Rightarrow>
          (case mapLegend f r1 cs (Suc i) of
             Inl e \<Rightarrow> Inl e
           | Inr (entries, r2) \<Rightarrow> Inr (entry # entries, r2)))"

definition getLegendList :: "env \<Rightarrow> ramp \<Rightarrow> string option list \<Rightarrow> error + legendEntry list \<times> ramp" where
  "getLegendList env r elems =
     bindE (mapLegend (getLegendItemValue env) r elems 0) (\<lambda>(entries, r1).
       Inr (filter (\<lambda>legend. values' legend \<noteq> None) entries, r1))"

definition getLeyendCategories :: "env \<Rightarrow> ramp \<Rightarrow> options \<Rightarrow> error + legendEntry list \<times> ramp" where
  "getLeyendCategories env r opts =
     bindE (mapLegend (\<lambda>r' category index. getLegendCategoryValue env r' category index opts)
              r (categories (attrs (input r))) 0) (\<lambda>(entries, r1).
       Inr (filter (\<lambda>legend. values' legend \<noteq> None) entries, r1))"

text \<open>
  \<open>_getLegendLinear\<close>: the sampled values of the property the \<open>Linear\<close> input wraps, sorted,
  each with what the ramp evaluates to at a feature holding that value. A value the
  sample lacks is \<open>undefined\<close> (\<open>None\<close>): \<open>Array.prototype.sort\<close> never hands \<open>undefined\<close> to
  the comparator and places every \<open>undefined\<close> after the values it has sorted. In the
  feature and in the entry an \<open>undefined\<close> is written \<open>NaN\<close>.
\<close>

definition getLegendLinear :: "env \<Rightarrow> ramp \<Rightarrow> error + legendEntry list \<times> ramp" where
  "getLegendLinear env r =
     (case inputOf (input r) of
        None \<Rightarrow> Inl (TypeError ''Cannot read properties of undefined'')
      | Some inner \<Rightarrow>
          (case metadataOf r of
             None \<Rightarrow> Inl (TypeError ''Cannot read properties of undefined'')
           | Some md \<Rightarrow>
               let key = (case name (attrs inner) of Some s \<Rightarrow> s | None \<Rightarrow> ''undefined'');
                   sampled = map (\<lambda>smp. map_of smp key) (sample md);
                   sorted = sortNumbers env (List.map_filter id sampled)
                              @ replicate (length (filter (\<lambda>v. v = None) sampled)) NaN
               in mapLegend
                    (\<lambda>r' v index. bindE (Ramp_eval env r' [(key, v)]) (\<lambda>(res, r1).
                        Inr (\<lparr> ename = name (attrs inner), values' = Some [NumberV v, res] \<rparr>, r1)))
                    r sorted 0))"

text \<open>\<open>getLegend\<close>; it returns \<open>undefined\<close> (\<open>None\<close>) when neither branch applies.\<close>

definition getLegend :: "env \<Rightarrow> ramp \<Rightarrow> options \<Rightarrow> error + legendEntry list option \<times> ramp" where
  "getLegend env r opts =
     (if isA (input r) Linear then
        bindE (getLegendLinear env r) (\<lambda>(entries, r1). Inr (Some entries, r1))
      else if etype (attrs (input r)) = INPUT_CATEGORY then
        (case listElems (attrs (input r)) of
           Some elems \<Rightarrow> bindE (getLegendList env r elems) (\<lambda>(entries, r1). Inr (Some entries, r1))
         | None \<Rightarrow> bindE (getLeyendCategories env r opts) (\<lambda>(entries, r1). Inr (Some entries, r1)))
      else Inr (None, r))"

subsection \<open>Metadata binding\<close>

text \<open>
  \<open>_bindMetadata\<close> of an input node changes the node in place: whatever the class's method
  (the parameter \<open>bindNode\<close>) does to the fields, the node stays an instance of its class.
  \<open>new Linear(input)\<close> is an instance of \<open>Linear\<close> whose \<open>input\<close> is the argument.
\<close>

definition bindExpr :: "env \<Rightarrow> metadata \<Rightarrow> expr \<Rightarrow> error + expr" where
  "bindExpr env md e =
     bindE (bindNode env md e) (\<lambda>e'. Inr (Expr ((attrs e')\<lparr> cls := cls (attrs e) \<rparr>) (inputOf e')))"

definition Linear_new :: "env \<Rightarrow> expr \<Rightarrow> expr" where
  "Linear_new env e = Expr ((linearAttrs env e)\<lparr> cls := Linear \<rparr>) (Some e)"

text \<open>
  Modelled from the spec: \<open>BaseExpression\<close> is not among the sources; its \<open>_bindMetadata\<close>,
  which the ramp calls first, is the binding pass over the node's children (the ramp
  "exclusively owns its children", \<open>input\<close> and \<open>palette\<close>, and the pass "resolves every
  property reference's type from Metadata").
\<close>

definition super_bindMetadata :: "env \<Rightarrow> metadata \<Rightarrow> ramp \<Rightarrow> error + ramp" where
  "super_bindMetadata env md r =
     bindE (bindExpr env md (input r)) (\<lambda>i.
     bindE (bindPalette env md (palette r)) (\<lambda>p.
       Inr (r\<lparr> input := i, palette := p \<rparr>)))"

text \<open>
  \<open>_bindMetadata\<close> of the ramp. (\<open>_properties\<close>, a copy of \<open>metadata.properties\<close>, is not
  kept as a field of its own.)
\<close>

definition Ramp_bindMetadata :: "env \<Rightarrow> metadata \<Rightarrow> ramp \<Rightarrow> error + ramp" where
  "Ramp_bindMetadata env md r =
     bindE (super_bindMetadata env md r) (\<lambda>r1.
     bindE (if isA (input r1) Property \<and> etype (attrs (input r1)) = INPUT_NUMBER
            then bindE (bindExpr env md (Linear_new env (input r1))) (\<lambda>i. Inr (r1\<lparr> input := i \<rparr>))
            else Inr r1) (\<lambda>r2.
       case checkType env [INPUT_NUMBER, INPUT_CATEGORY] (input r2) of
         Some e \<Rightarrow> Inl e
       | None \<Rightarrow>
           (case (if ptype (palette r2) = IMAGE
                  then (case checkType env [INPUT_CATEGORY] (input r2) of
                          Some e \<Rightarrow> Some e
                        | None \<Rightarrow> checkInstance env (palette r2))
                  else None) of
              Some e \<Rightarrow> Inl e
            | None \<Rightarrow> Inr (r2\<lparr> metadataOf := Some md, texCategories := Null,
                               GLtexCategories := Null \<rparr>))))"

section \<open>Example values\<close>

text \<open>
  Concrete values on which the theorems below are run. The parameters are instantiated
  as simply as the examples allow. \<open>fround\<close> leaves every number alone: the palette values
  of the examples, 1.5 and 10, are exactly representable in single precision; the table
  cells between the two ends are kept exact, where single precision would change them by
  less than a millionth, which moves no result below. The colour interpolation returns the
  nearer of its two colours, as every interpolation does at the ends \<open>m = 0\<close> and \<open>m = 1\<close>;
  the colours of a colour array are taken whole.
\<close>

definition nearestColor :: "color \<Rightarrow> color \<Rightarrow> jsnum \<Rightarrow> color" where
  "nearestColor c1 c2 m = (if jlt m (Num (1 / 2)) then c1 else c2)"

definition wholePalette :: "expr \<Rightarrow> palette \<Rightarrow> jsnum \<Rightarrow> error + jsval list" where
  "wholePalette e p k =
     (case colors p of
        Some cs \<Rightarrow> Inr cs
      | None \<Rightarrow> Inl (TypeError ''Cannot read properties of undefined''))"

definition typeAmong :: "inputType list \<Rightarrow> expr \<Rightarrow> error option" where
  "typeAmong ts e = (if etype (attrs e) \<in> set ts then None else Some (TypeError ''ramp input''))"

definition bindTo :: "metadata \<Rightarrow> expr \<Rightarrow> error + expr" where
  "bindTo md e = Inr (Expr ((attrs e)\<lparr> boundTo := Some md \<rparr>) (inputOf e))"

definition readProperty :: "string \<Rightarrow> feature \<Rightarrow> error + jsnum" where
  "readProperty key feat = Inr (case map_of feat key of Some v \<Rightarrow> v | None \<Rightarrow> NaN)"

definition linearOver :: "expr \<Rightarrow> exprAttrs" where
  "linearOver e =
     \<lparr> cls = Linear, etype = INPUT_NUMBER, numCategories = None, numBuckets = None,
       name = None, categories = [], listElems = None, evalIn = evalIn (attrs e),
       boundTo = None \<rparr>"

fun insertNumber :: "jsnum \<Rightarrow> jsnum list \<Rightarrow> jsnum list" where
  "insertNumber x [] = [x]"
| "insertNumber x (y # ys) = (if jle x y then x # y # ys else y # insertNumber x ys)"

definition sortAscending :: "jsnum list \<Rightarrow> jsnum list" where
  "sortAscending xs = foldr insertNumber xs []"

definition exampleEnv :: env where
  "exampleEnv =
     \<lparr> fround = id, interpolateRGBAinCieLAB = nearestColor,
       getColorsFromPalette = wholePalette, constructorChecks = (\<lambda>e p. None),
       checkType = typeAmong, checkInstance = (\<lambda>p. None), bindNode = bindTo,
       bindPalette = (\<lambda>md p. Inr p), linearAttrs = linearOver,
       sortNumbers = sortAscending \<rparr>"

text \<open>The property \<open>$x\<close>, of numeric type, and \<open>linear($x, 0, 1)\<close> over it.\<close>

definition propertyX :: expr where
  "propertyX =
     Expr \<lparr> cls = Property, etype = INPUT_NUMBER, numCategories = None, numBuckets = None,
            name = Some ''x'', categories = [], listElems = None,
            evalIn = readProperty ''x'', boundTo = None \<rparr> None"

definition linearX :: expr where
  "linearX = Expr (linearOver propertyX) (Some propertyX)"

text \<open>The numeric palette \<open>[1.5, 10]\<close> and the ramp \<open>ramp(linear($x, 0, 1), [1.5, 10])\<close>.\<close>

definition sizePalette :: palette where
  "sizePalette =
     \<lparr> ptype = NUMBER_ARRAY, floats = None, colors = None,
       peval = Inr [N (Num (3 / 2)), N (Num 10)], pAnimated = False, imageUrls = [] \<rparr>"

definition sizeRamp :: ramp where
  "sizeRamp =
     \<lparr> input = linearX,
       palette = sizePalette\<lparr> floats := Some [N (Num (3 / 2)), N (Num 10)] \<rparr>,
       minKey = Num 0, maxKey = Num 1, rtype = RAMP_NUMBER, cachedTexturePixels = None,
       texCategories = Val None, GLtexCategories = Val None, metadataOf = None,
       texture = None \<rparr>"

text \<open>The table of that ramp, and the ramp once \<open>_computeTextureIfNeeded\<close> has built it.\<close>

definition sizeTable :: "jsnum list" where
  "sizeTable = map (numericRampPixel exampleEnv [N (Num (3 / 2)), N (Num 10)]) [0..<COLOR_ARRAY_LENGTH]"

definition sizeRampBuilt :: ramp where
  "sizeRampBuilt = sizeRamp\<lparr> cachedTexturePixels := Some sizeTable \<rparr>"

text \<open>
  The category property \<open>$kind\<close> over the given category names, and the ramp
  \<open>ramp($kind, [1.5, 10])\<close>: as the constructor leaves it, and after its table has been
  built.
\<close>

definition kindInput :: "string option list \<Rightarrow> expr" where
  "kindInput names =
     Expr \<lparr> cls = Property, etype = INPUT_CATEGORY, numCategories = Some (length names),
            numBuckets = None, name = Some ''kind'', categories = names, listElems = None,
            evalIn = readProperty ''kind'', boundTo = None \<rparr> None"

definition kinds3 :: "string option list" where
  "kinds3 = [Some ''bus'', Some ''car'', Some ''tram'']"

definition kinds5 :: "string option list" where
  "kinds5 = [Some ''bus'', Some ''car'', Some ''tram'', Some ''bike'', Some ''boat'']"

definition kindRamp :: "string option list \<Rightarrow> ramp" where
  "kindRamp names = sizeRamp\<lparr> input := kindInput names \<rparr>"

definition kindRampBuilt :: "string option list \<Rightarrow> ramp" where
  "kindRampBuilt names =
     (kindRamp names)\<lparr> texCategories := Val (Some (length names)),
                        maxKey := Num (of_nat (length names) - 1),
                        cachedTexturePixels := Some sizeTable \<rparr>"

text \<open>
  The ramp over three categories with its table built, after the input has come to have
  five categories.
\<close>

definition staleRamp :: ramp where
  "staleRamp = (kindRampBuilt kinds3)\<lparr> input := kindInput kinds5 \<rparr>"

text \<open>The colour palette \<open>[red, blue]\<close> and the ramp \<open>ramp($kind, [red, blue])\<close>.\<close>

definition red :: color where
  "red = \<lparr> cr = Num 255, cg = Num 0, cb = Num 0, ca = Num 1 \<rparr>"

definition blue :: color where
  "blue = \<lparr> cr = Num 0, cg = Num 0, cb = Num 255, ca = Num 1 \<rparr>"

definition colorPalette :: palette where
  "colorPalette =
     \<lparr> ptype = COLOR_ARRAY, floats = None, colors = None,
       peval = Inr [C red, C blue], pAnimated = False, imageUrls = [] \<rparr>"

definition colorRamp :: "string option list \<Rightarrow> ramp" where
  "colorRamp names =
     \<lparr> input = kindInput names,
       palette = colorPalette\<lparr> colors := Some [C red, C blue] \<rparr>,
       minKey = Num 0, maxKey = Num 1, rtype = RAMP_COLOR, cachedTexturePixels = None,
       texCategories = Val None, GLtexCategories = Val None, metadataOf = None,
       texture = None \<rparr>"

text \<open>
  \<open>top($kind, 1)\<close>, whose second category stands for all the others, over an image list
  of two images.
\<close>

definition topInput :: expr where
  "topInput =
     Expr \<lparr> cls = Top, etype = INPUT_CATEGORY, numCategories = Some 2, numBuckets = Some 1,
            name = None, categories = [Some ''bus'', None], listElems = None,
            evalIn = readProperty ''kind'', boundTo = None \<rparr> (Some (kindInput kinds3))"

definition imagePalette :: palette where
  "imagePalette =
     \<lparr> ptype = IMAGE, floats = None, colors = None, peval = Inr [], pAnimated = False,
       imageUrls = [''bus.svg'', ''any.svg''] \<rparr>"

definition imageRamp :: ramp where
  "imageRamp =
     \<lparr> input = topInput, palette = imagePalette, minKey = Num 0, maxKey = Num 1,
       rtype = RAMP_COLOR, cachedTexturePixels = None, texCategories = Val None,
       GLtexCategories = Val None, metadataOf = None, texture = None \<rparr>"

text \<open>
  \<open>top($kind, 1)\<close> over the three categories of \<open>$kind\<close>: one bucket and the others, so
  two categories to colour, while \<open>getCategories()\<close> names all three. The ramp
  \<open>ramp(top($kind, 1), [red, blue])\<close>.
\<close>

definition topOverKinds :: expr where
  "topOverKinds =
     Expr \<lparr> cls = Top, etype = INPUT_CATEGORY, numCategories = Some 2, numBuckets = Some 1,
            name = None, categories = kinds3, listElems = None,
            evalIn = readProperty ''kind'', boundTo = None \<rparr> (Some (kindInput kinds3))"

definition topColorRamp :: ramp where
  "topColorRamp = (colorRamp kinds3)\<lparr> input := topOverKinds \<rparr>"

text \<open>
  The same classification carrying a \<open>list\<close> of two elements, the second without a name,
  over the image list.
\<close>

definition listedInput :: expr where
  "listedInput =
     Expr \<lparr> cls = Top, etype = INPUT_CATEGORY, numCategories = Some 2, numBuckets = Some 1,
            name = None, categories = [Some ''bus'', None],
            listElems = Some [Some ''bus'', None],
            evalIn = readProperty ''kind'', boundTo = None \<rparr> (Some (kindInput kinds3))"

definition listedRamp :: ramp where
  "listedRamp = imageRamp\<lparr> input := listedInput \<rparr>"


text \<open>The ramp \<open>ramp($x, [1.5, 10])\<close>, over the bare property.\<close>

definition propertyRamp :: ramp where
  "propertyRamp = sizeRamp\<lparr> input := propertyX \<rparr>"

text \<open>A dataset with the numeric property \<open>x\<close>.\<close>

definition exampleMetadata :: metadata where
  "exampleMetadata = \<lparr> properties = [(''x'', INPUT_NUMBER)], sample = [[(''x'', Num 3)]] \<rparr>"

section \<open>Properties of Animate\<close>

lemma Animate_new_fields:
  assumes "Animate_new t0 (Num d) = Inr a"
  shows "0 \<le> d \<and> aTime a = Num (of_int t0) \<and> bTime a = Num (of_int t0 + d) \<and> mix a = None"
  using assms by (auto simp: Animate_new_def checkNumber_def isNaN_def split: if_splits)

lemma progress_new:
  assumes "Animate_new t0 (Num d) = Inr a"
  shows "progress a t = jdiv (Num (of_int t - of_int t0)) (Num d)"
proof -
  from Animate_new_fields [OF assms]
  have "aTime a = Num (of_int t0)" and "bTime a = Num (of_int t0 + d)" by simp_all
  then show ?thesis by (simp add: progress_def jsub_def)
qed


lemma Animate_eval_keeps_times:
  "aTime (snd (Animate_eval t a)) = aTime a \<and> bTime (snd (Animate_eval t a)) = bTime a"
  by (simp add: Animate_eval_def Let_def)

lemma Animate_eval_positive:
  assumes "Animate_new t0 (Num d) = Inr a" and "0 < d"
  shows "fst (Animate_eval t a) = Num (min ((of_int t - of_int t0) / d) 1)"
  using assms by (simp add: Animate_eval_def Let_def progress_new)

lemma Animate_eval_at_creation:
  assumes "Animate_new t0 (Num d) = Inr a" and "0 < d"
  shows "fst (Animate_eval t0 a) = Num 0"
  using Animate_eval_positive [OF assms, of t0] by simp

lemma Animate_eval_elapsed:
  assumes "Animate_new t0 (Num d) = Inr a" and "0 < d" and "of_int t0 + d \<le> of_int t"
  shows "fst (Animate_eval t a) = Num 1"
proof -
  have "1 \<le> (of_int t - of_int t0) / d" using assms(2,3) by (simp add: le_divide_eq)
  then show ?thesis
    using Animate_eval_positive [OF assms(1,2), of t] by (simp add: min_def)
qed

lemma Animate_eval_at_most_one: "\<not> jgt (fst (Animate_eval t a)) (Num 1)"
  by (cases "progress a t") (simp_all add: Animate_eval_def Let_def jgt_def)

subsection \<open>A duration of zero\<close>

text \<open>
  C5. The claim: a node of duration \<open>d\<close> created at \<open>t0\<close> returns \<open>min((t - t0) / d, 1)\<close>
  at every time \<open>t \<ge> t0\<close>, and exactly 1 once the duration has elapsed. The constructor
  accepts the duration 0; evaluated in the millisecond of its creation, such a node has
  elapsed its whole duration, and \<open>eval\<close> divides 0 by 0 and returns \<open>NaN\<close>.
\<close>

theorem Animate_eval_zero_duration:
  "Animate_new 0 (Num 0) = Inr \<lparr> aTime = Num 0, bTime = Num 0, mix = None \<rparr>
   \<and> fst (Animate_eval 0 \<lparr> aTime = Num 0, bTime = Num 0, mix = None \<rparr>) = NaN"
  by (simp add: Animate_new_def checkNumber_def isNaN_def Animate_eval_def progress_def jsub_def)

subsection \<open>What isAnimated answers from\<close>




section \<open>Properties of the ramp\<close>

subsection \<open>Auxiliary facts\<close>

lemma bindE_Inr_iff: "bindE m f = Inr y \<longleftrightarrow> (\<exists>x. m = Inr x \<and> f x = Inr y)"
  by (cases m) (simp_all add: bindE_def)

lemma bindE_Inl: "bindE (Inl e) f = Inl e"
  by (simp add: bindE_def)

lemma bindE_Inr: "bindE (Inr x) f = f x"
  by (simp add: bindE_def)

lemma calcPaletteValues_fields:
  assumes "calcPaletteValues p = Inr p'"
  shows "ptype p' = ptype p \<and> pAnimated p' = pAnimated p \<and> peval p' = peval p \<and> imageUrls p' = imageUrls p"
  using assms by (auto simp: calcPaletteValues_def split: if_splits sum.splits)

lemma computeColorRampTexture_fields:
  assumes "computeColorRampTexture env r = Inr (t, r')"
  shows "input r' = input r \<and> rtype r' = rtype r \<and> minKey r' = minKey r \<and> maxKey r' = maxKey r
       \<and> cachedTexturePixels r' = cachedTexturePixels r
       \<and> ptype (palette r') = ptype (palette r) \<and> pAnimated (palette r') = pAnimated (palette r)"
  using assms
  by (auto simp: computeColorRampTexture_def bindE_Inr_iff Let_def dest: calcPaletteValues_fields split: if_splits)

lemma computeTextureIfNeeded_fields:
  assumes "computeTextureIfNeeded env r = Inr (t, r')"
  shows "cachedTexturePixels r' = Some t \<and> input r' = input r \<and> rtype r' = rtype r
       \<and> minKey r' = minKey r \<and> ptype (palette r') = ptype (palette r)"
  using assms
  by (auto simp: computeTextureIfNeeded_def bindE_Inr_iff Let_def
           dest!: computeColorRampTexture_fields split: if_splits option.splits)

lemma computeTextureIfNeeded_keys:
  assumes "computeTextureIfNeeded env r = Inr (t, r')"
  shows "maxKey r' = (if (cachedTexturePixels r = None \<or> pAnimated (palette r))
                         \<and> etype (attrs (input r)) = INPUT_CATEGORY
                      then numCategoriesMinus1 (input r) else maxKey r)"
  using assms
  by (auto simp: computeTextureIfNeeded_def bindE_Inr_iff Let_def
           dest!: computeColorRampTexture_fields split: if_splits option.splits)

lemma cached_table_reused:
  assumes "cachedTexturePixels r = Some t" and "\<not> pAnimated (palette r)"
  shows "computeTextureIfNeeded env r = Inr (t, r)"
  using assms by (simp add: computeTextureIfNeeded_def)

lemma elemAt_outside:
  assumes "y < 0 \<or> of_nat (length xs) \<le> y"
  shows "elemAt xs (Num y) = None"
proof (cases "y < 0")
  case True
  then show ?thesis by (simp add: elemAt_def)
next
  case False
  with assms have "of_nat (length xs) \<le> y" by simp
  then have "int (length xs) \<le> \<lfloor>y\<rfloor>" by (simp add: le_floor_iff)
  then have "\<not> nat \<lfloor>y\<rfloor> < length xs" by linarith
  then show ?thesis by (simp add: elemAt_def)
qed

lemma elemAt_inside:
  assumes "0 \<le> k" and "nat k < length xs"
  shows "elemAt xs (Num (of_int k)) = Some (xs ! nat k)"
  using assms by (simp add: elemAt_def)


lemma lerp_same: "jadd (jmul (Num f) (Num v)) (jmul (jsub (Num 1) (Num f)) (Num v)) = Num v"
  by (simp add: jsub_def algebra_simps)

lemma numAt_table:
  assumes "i < n"
  shows "numAt (map f [0..<n]) (Num (of_nat i)) = f i"
  using assms by (simp add: numAt_def elemAt_def)


subsection \<open>The numeric table\<close>

lemma numericRampPixel_first:
  assumes "fs \<noteq> []" and "hd fs = N (Num y)"
  shows "numericRampPixel env fs 0 = fround env (Num y)"
  using assms by (cases fs) (simp_all add: numericRampPixel_def Let_def elemAt_def jsub_def)

lemma numericRampPixel_last:
  assumes "fs \<noteq> []" and "last fs = N (Num y)"
  shows "numericRampPixel env fs 255 = fround env (Num y)"
proof -
  have len: "0 < length fs" using assms by simp
  have fl: "\<lfloor>real (length fs) - 1\<rfloor> = int (length fs) - 1"
    by (metis floor_diff_one floor_of_nat)
  have ce: "\<lceil>real (length fs) - 1\<rceil> = int (length fs) - 1"
    by (metis ceiling_diff_one ceiling_of_nat)
  have nth: "fs ! nat (int (length fs) - 1) = last fs"
    using assms(1) by (simp add: last_conv_nth nat_diff_distrib')
  have pos: "Num (real 255 / (real COLOR_ARRAY_LENGTH - 1) * (real (length fs) - 1))
             = Num (real (length fs) - 1)"
    by (simp add: COLOR_ARRAY_LENGTH_def)
  have "numericRampPixel env fs 255 =
          (let pos = Num (real (length fs) - 1);
               vColorARaw = toNum (elemAt fs (jfloor pos));
               vColorBRaw = toNum (elemAt fs (jceil pos));
               m = jsub pos (jfloor pos)
           in fround env (jadd (jmul (jsub (Num 1) m) vColorARaw) (jmul m vColorBRaw)))"
    unfolding numericRampPixel_def pos ..
  also have "\<dots> = fround env (Num y)"
  proof -
    have lt: "nat (int (length fs) - 1) < length fs" using len by linarith
    have ge: "1 \<le> real (length fs)" using assms(1) by (cases fs) simp_all
    show ?thesis
      using lt ge nth assms(2)
      by (simp add: Let_def fl ce elemAt_def jsub_def)
  qed
  finally show ?thesis .
qed

lemma getValue_table_first:
  assumes "length t = 256" and "t ! 0 = Num z"
  shows "getValue t (Num 255) (Num 0) = jround (Num z)"
  using assms by (simp add: getValue_def Let_def clamp_def numAt_def elemAt_def jsub_def)

lemma getValue_table_last:
  assumes "length t = 256" and "t ! 255 = Num z"
  shows "getValue t (Num 255) (Num 1) = jround (Num z)"
  using assms by (simp add: getValue_def Let_def clamp_def numAt_def elemAt_def jsub_def)

lemma numericTable_built:
  assumes "rtype r = RAMP_NUMBER" and "floats (palette r) = Some fs"
    and "cachedTexturePixels r = None \<or> pAnimated (palette r)"
  shows "computeTextureIfNeeded env r =
           Inr (map (numericRampPixel env fs) [0..<COLOR_ARRAY_LENGTH],
                r\<lparr> texCategories := Val (numCategories (attrs (input r))),
                   maxKey := (if etype (attrs (input r)) = INPUT_CATEGORY
                              then numCategoriesMinus1 (input r) else maxKey r),
                   cachedTexturePixels := Some (map (numericRampPixel env fs) [0..<COLOR_ARRAY_LENGTH]) \<rparr>)"
  using assms
  by (auto simp: computeTextureIfNeeded_def computeNumericRampTexture_def bindE_def Let_def
           split: option.splits)

lemma sizeRamp_new: "Ramp_new exampleEnv linearX sizePalette = Inr sizeRamp"
  by (simp add: Ramp_new_def exampleEnv_def sizePalette_def sizeRamp_def calcPaletteValues_def bindE_def)

lemma sizeRamp_table:
  "computeTextureIfNeeded exampleEnv sizeRamp = Inr (sizeTable, sizeRampBuilt)"
  using numericTable_built [of sizeRamp "[N (Num (3 / 2)), N (Num 10)]" exampleEnv]
  by (simp add: sizeRamp_def sizePalette_def sizeTable_def sizeRampBuilt_def linearX_def linearOver_def)

lemma sizeTable_ends: "length sizeTable = 256 \<and> sizeTable ! 0 = Num (3 / 2) \<and> sizeTable ! 255 = Num 10"
  using numericRampPixel_first [of "[N (Num (3 / 2)), N (Num 10)]" "3 / 2" exampleEnv]
    numericRampPixel_last [of "[N (Num (3 / 2)), N (Num 10)]" 10 exampleEnv]
  by (simp add: sizeTable_def COLOR_ARRAY_LENGTH_def exampleEnv_def)

lemma sizeTable_middle:
  "sizeTable ! 127 = Num (3 / 2 + 17 / 2 * (127 / 255))
   \<and> sizeTable ! 128 = Num (3 / 2 + 17 / 2 * (128 / 255))"
proof -
  have "numericRampPixel exampleEnv [N (Num (3 / 2)), N (Num 10)] 127 = Num (3 / 2 + 17 / 2 * (127 / 255))"
    by (simp add: numericRampPixel_def COLOR_ARRAY_LENGTH_def Let_def elemAt_def jsub_def exampleEnv_def)
  moreover have "numericRampPixel exampleEnv [N (Num (3 / 2)), N (Num 10)] 128 = Num (3 / 2 + 17 / 2 * (128 / 255))"
    by (simp add: numericRampPixel_def COLOR_ARRAY_LENGTH_def Let_def elemAt_def jsub_def exampleEnv_def)
  ultimately show ?thesis
    by (simp add: sizeTable_def COLOR_ARRAY_LENGTH_def)
qed

lemma sizeTable_cells:
  "numAt sizeTable (Num 0) = Num (3 / 2) \<and> numAt sizeTable (Num 127) = Num (86 / 15)
   \<and> numAt sizeTable (Num 128) = Num (173 / 30) \<and> numAt sizeTable (Num 255) = Num 10"
  using sizeTable_ends sizeTable_middle by (simp add: numAt_def elemAt_def)

lemma getValue_sizeTable_half: "getValue sizeTable (Num 255) (Num (1 / 2)) = Num 6"
proof -
  have l: "length sizeTable = 256" using sizeTable_ends by simp
  have lo: "numAt sizeTable (Num 127) = Num (3 / 2 + 17 / 2 * (127 / 255))"
    using sizeTable_middle l by (simp add: numAt_def elemAt_def)
  have hi: "numAt sizeTable (Num 128) = Num (3 / 2 + 17 / 2 * (128 / 255))"
    using sizeTable_middle l by (simp add: numAt_def elemAt_def)
  show ?thesis
    by (simp add: getValue_def Let_def clamp_def lo hi jsub_def)
qed

lemma getValue_sizeTable_one: "getValue sizeTable (Num 255) (Num 1) = Num 10"
  using getValue_table_last [of sizeTable 10] sizeTable_ends by simp

lemma sizeRamp_eval_at:
  assumes "getValue sizeTable (Num 255) (Num x) = Num y"
  shows "Ramp_eval exampleEnv sizeRamp [(''x'', Num x)] = Inr (NumberV (Num y), sizeRampBuilt)"
proof -
  have cp: "calcPaletteValues (palette sizeRamp) = Inr (palette sizeRamp)"
    by (simp add: calcPaletteValues_def sizeRamp_def sizePalette_def)
  have ev: "evalIn (attrs (input sizeRampBuilt)) [(''x'', Num x)] = Inr (Num x)"
    by (simp add: sizeRampBuilt_def sizeRamp_def linearX_def linearOver_def propertyX_def readProperty_def)
  have k: "minKey sizeRampBuilt = Num 0" "maxKey sizeRampBuilt = Num 1" "rtype sizeRampBuilt = RAMP_NUMBER"
    by (simp_all add: sizeRampBuilt_def sizeRamp_def)
  show ?thesis
    using sizeTable_ends assms
    by (simp add: Ramp_eval_def cp sizeRamp_table bindE_def ev k jsub_def)
qed

lemma sizeRamp_eval_first:
  "Ramp_eval exampleEnv sizeRamp [(''x'', Num 0)] = Inr (NumberV (Num 2), sizeRampBuilt)"
proof -
  have cp: "calcPaletteValues (palette sizeRamp) = Inr (palette sizeRamp)"
    by (simp add: calcPaletteValues_def sizeRamp_def sizePalette_def)
  have ev: "evalIn (attrs (input sizeRampBuilt)) [(''x'', Num 0)] = Inr (Num 0)"
    by (simp add: sizeRampBuilt_def sizeRamp_def linearX_def linearOver_def propertyX_def readProperty_def)
  have k: "minKey sizeRampBuilt = Num 0" "maxKey sizeRampBuilt = Num 1" "rtype sizeRampBuilt = RAMP_NUMBER"
    by (simp_all add: sizeRampBuilt_def sizeRamp_def)
  have gv: "getValue sizeTable (Num 255) (Num 0) = Num 2"
    using getValue_table_first [of sizeTable "3 / 2"] sizeTable_ends by simp
  show ?thesis
    using sizeTable_ends
    by (simp add: Ramp_eval_def cp sizeRamp_table bindE_def ev k gv jsub_def)
qed

text \<open>
  What the draw path hands to the GL texture of a bound numeric ramp is the table as it
  was built, cell by cell.
\<close>

lemma GL_texture_holds_the_table:
  "computeGLTextureIfNeeded exampleEnv (sizeRamp\<lparr> GLtexCategories := Null \<rparr>)
     = Inr (sizeRampBuilt\<lparr> GLtexCategories := Val None, texture := Some sizeTable \<rparr>)"
proof -
  define R where "R = sizeRamp\<lparr> GLtexCategories := Null \<rparr>"
  have f: "rtype R = RAMP_NUMBER" "floats (palette R) = Some [N (Num (3 / 2)), N (Num 10)]"
    "cachedTexturePixels R = None \<or> pAnimated (palette R)"
    "etype (attrs (input R)) \<noteq> INPUT_CATEGORY" "numCategories (attrs (input R)) = None"
    "\<not> pAnimated (palette R)" "texCategories R = Val None" "GLtexCategories R = Null"
    by (simp_all add: R_def sizeRamp_def sizePalette_def linearX_def linearOver_def)
  from numericTable_built [OF f(1,2,3), of exampleEnv]
  have t: "computeTextureIfNeeded exampleEnv R = Inr (sizeTable, R\<lparr> cachedTexturePixels := Some sizeTable \<rparr>)"
    using f(4,5,7) by (simp add: sizeTable_def)
  have "computeGLTextureIfNeeded exampleEnv R
      = Inr (R\<lparr> cachedTexturePixels := Some sizeTable, GLtexCategories := Val None, texture := Some sizeTable \<rparr>)"
    using f(5,6,8) by (simp add: computeGLTextureIfNeeded_def t bindE_def)
  then show ?thesis
    by (simp add: R_def sizeRampBuilt_def)
qed

subsection \<open>The colour table\<close>

lemma sequenceE_map_ok:
  assumes "\<And>x. x \<in> set xs \<Longrightarrow> \<exists>v. f x = Inr v \<and> Q v"
  shows "\<exists>vs. sequenceE (map f xs) = Inr vs \<and> length vs = length xs \<and> (\<forall>v \<in> set vs. Q v)"
  using assms
proof (induction xs)
  case Nil
  then show ?case by simp
next
  case (Cons x xs)
  then obtain v where v: "f x = Inr v" "Q v" by auto
  from Cons obtain vs where vs: "sequenceE (map f xs) = Inr vs" "length vs = length xs"
    "\<forall>v \<in> set vs. Q v" by auto
  show ?case using v vs by simp
qed

lemma length_concat_fixed:
  assumes "\<forall>v \<in> set vs. length v = n"
  shows "length (concat vs) = n * length vs"
  using assms by (induction vs) simp_all

lemma channels_Some: "\<exists>c. channels (Some v) = Inr c"
  by (cases v) simp_all

lemma isFinite_toUint8: "isFinite (toUint8 z)"
  by (cases z) simp_all

lemma elemAt_floor_inside:
  assumes "0 \<le> p" and "p \<le> of_nat (length xs) - 1"
  shows "\<exists>v. elemAt xs (jfloor (Num p)) = Some v"
proof -
  have "of_int \<lfloor>p\<rfloor> \<le> p" by simp
  then have "of_int \<lfloor>p\<rfloor> < (of_nat (length xs) :: real)" using assms(2) by linarith
  then have "\<lfloor>p\<rfloor> < int (length xs)" by (metis of_int_less_iff of_int_of_nat_eq)
  moreover have ge: "0 \<le> \<lfloor>p\<rfloor>" using assms(1) by simp
  ultimately have "nat \<lfloor>p\<rfloor> < length xs" by linarith
  from elemAt_inside [OF ge this] show ?thesis by simp
qed

lemma elemAt_ceil_inside:
  assumes "0 \<le> p" and "p \<le> of_nat (length xs) - 1"
  shows "\<exists>v. elemAt xs (jceil (Num p)) = Some v"
proof -
  have "p \<le> of_int (int (length xs) - 1)" using assms(2) by simp
  then have "\<lceil>p\<rceil> \<le> int (length xs) - 1" by (simp only: ceiling_le_iff)
  then have "\<lceil>p\<rceil> < int (length xs)" by simp
  moreover have ge: "0 \<le> \<lceil>p\<rceil>" using assms(1) by (simp add: ceiling_le_iff le_ceiling_iff)
  ultimately have "nat \<lceil>p\<rceil> < length xs" by linarith
  from elemAt_inside [OF ge this] show ?thesis by simp
qed

lemma colorRampPixel_ok:
  assumes "cols \<noteq> []" and "i < COLOR_ARRAY_LENGTH"
  shows "\<exists>v. colorRampPixel env cols i = Inr v \<and> length v = 4 \<and> (\<forall>z \<in> set v. isFinite z)"
proof -
  define p :: real where "p = of_nat i / (of_nat COLOR_ARRAY_LENGTH - 1) * (of_nat (length cols) - 1)"
  have l: "1 \<le> real (length cols)" using assms(1) by (cases cols) simp_all
  have q: "0 \<le> real i / 255" "real i / 255 \<le> 1"
    using assms(2) by (simp_all add: COLOR_ARRAY_LENGTH_def)
  have p0: "0 \<le> p" using l q by (simp add: p_def COLOR_ARRAY_LENGTH_def)
  have p1: "p \<le> of_nat (length cols) - 1"
    using l q mult_left_le_one_le [of "real (length cols) - 1" "real i / 255"]
    by (simp add: p_def COLOR_ARRAY_LENGTH_def mult.commute)
  obtain va vb where va: "elemAt cols (jfloor (Num p)) = Some va"
    and vb: "elemAt cols (jceil (Num p)) = Some vb"
    using elemAt_floor_inside [OF p0 p1] elemAt_ceil_inside [OF p0 p1] by auto
  obtain ca cb where "channels (Some va) = Inr ca" "channels (Some vb) = Inr cb"
    using channels_Some by blast
  then show ?thesis
    unfolding colorRampPixel_def p_def [symmetric] Let_def va vb
    by (simp add: bindE_def isFinite_toUint8)
qed

lemma sequenceE_nth:
  assumes "sequenceE (map f xs) = Inr vs" and "i < length xs"
  shows "f (xs ! i) = Inr (vs ! i)"
  using assms
proof (induction xs arbitrary: vs i)
  case Nil
  then show ?case by simp
next
  case (Cons x xs)
  then obtain v vs' where v: "f x = Inr v" and r: "sequenceE (map f xs) = Inr vs'"
    and vs: "vs = v # vs'"
    by (auto split: sum.splits)
  show ?case
  proof (cases i)
    case 0
    with v vs show ?thesis by simp
  next
    case (Suc j)
    with Cons.prems(2) have "j < length xs" by simp
    from Cons.IH [OF r this] Suc vs show ?thesis by simp
  qed
qed

lemma concat_chunk:
  assumes "\<forall>v \<in> set vs. length v = 4" and "i < length vs" and "j < 4"
  shows "concat vs ! (4 * i + j) = vs ! i ! j"
  using assms
proof (induction vs arbitrary: i)
  case Nil
  then show ?case by simp
next
  case (Cons v vs)
  then have lv: "length v = 4" by simp
  show ?case
  proof (cases i)
    case 0
    with lv Cons.prems(3) show ?thesis by (simp add: nth_append)
  next
    case (Suc k)
    with Cons.prems have k: "k < length vs" and all: "\<forall>v \<in> set vs. length v = 4" by simp_all
    have "4 * Suc k + j = length v + (4 * k + j)" using lv by simp
    then have "concat (v # vs) ! (4 * i + j) = concat vs ! (4 * k + j)"
      using Suc by (simp add: nth_append)
    with Cons.IH [OF all k Cons.prems(3)] Suc show ?thesis by simp
  qed
qed

lemma list4: 
  assumes "length v = 4"
  shows "v = [v ! 0, v ! 1, v ! 2, v ! 3]"
  using assms by (auto simp: list_eq_iff_nth_eq less_Suc_eq numeral_eq_Suc)

lemma colorTable_chunks:
  assumes "rtype r = RAMP_COLOR" and "\<not> pAnimated (palette r)" and "cachedTexturePixels r = None"
    and "K = (if etype (attrs (input r)) = INPUT_CATEGORY
              then numCategoriesMinus1 (input r) else maxKey r)"
    and "getColorsFromPalette env (input r) (palette r) K = Inr cols" and "cols \<noteq> []"
  shows "\<exists>t. computeTextureIfNeeded env r =
           Inr (t, r\<lparr> texCategories := Val (numCategories (attrs (input r))), maxKey := K,
                      cachedTexturePixels := Some t \<rparr>)
         \<and> length t = 4 * COLOR_ARRAY_LENGTH \<and> (\<forall>v \<in> set t. isFinite v)
         \<and> (\<exists>px. sequenceE (map (colorRampPixel env cols) [0..<COLOR_ARRAY_LENGTH]) = Inr px
                \<and> t = concat px \<and> length px = COLOR_ARRAY_LENGTH
                \<and> (\<forall>v \<in> set px. length v = 4))"
proof -
  obtain px where px: "sequenceE (map (colorRampPixel env cols) [0..<COLOR_ARRAY_LENGTH]) = Inr px"
    and len: "length px = length [0..<COLOR_ARRAY_LENGTH]"
    and all: "\<forall>v \<in> set px. length v = 4 \<and> (\<forall>z \<in> set v. isFinite z)"
    using sequenceE_map_ok [of "[0..<COLOR_ARRAY_LENGTH]" "colorRampPixel env cols"
        "\<lambda>v. length v = 4 \<and> (\<forall>z \<in> set v. isFinite z)"]
      colorRampPixel_ok [OF assms(6)]
    by auto
  define r2 where "r2 = r\<lparr> texCategories := Val (numCategories (attrs (input r))), maxKey := K \<rparr>"
  have c: "computeColorRampTexture env r2 = Inr (concat px, r2)"
    using assms(2,5) px by (simp add: computeColorRampTexture_def r2_def bindE_def Let_def)
  have "computeTextureIfNeeded env r = Inr (concat px, r2\<lparr> cachedTexturePixels := Some (concat px) \<rparr>)"
  proof (cases "etype (attrs (input r)) = INPUT_CATEGORY")
    case True
    then show ?thesis
      using assms(1,3,4) c by (simp add: computeTextureIfNeeded_def Let_def bindE_def r2_def)
  next
    case False
    then have "r2 = r\<lparr> texCategories := Val (numCategories (attrs (input r))) \<rparr>"
      using assms(4) by (simp add: r2_def)
    then show ?thesis
      using False assms(1,3) c by (simp add: computeTextureIfNeeded_def Let_def bindE_def)
  qed
  moreover have "length (concat px) = 4 * COLOR_ARRAY_LENGTH"
    using length_concat_fixed [of px 4] all len by simp
  moreover have "\<forall>v \<in> set (concat px). isFinite v" using all by auto
  moreover have "length px = COLOR_ARRAY_LENGTH \<and> (\<forall>v \<in> set px. length v = 4)"
    using len all by simp
  ultimately have "computeTextureIfNeeded env r =
           Inr (concat px, r\<lparr> texCategories := Val (numCategories (attrs (input r))), maxKey := K,
                      cachedTexturePixels := Some (concat px) \<rparr>)
         \<and> length (concat px) = 4 * COLOR_ARRAY_LENGTH \<and> (\<forall>v \<in> set (concat px). isFinite v)
         \<and> (\<exists>px'. sequenceE (map (colorRampPixel env cols) [0..<COLOR_ARRAY_LENGTH]) = Inr px'
                \<and> concat px = concat px' \<and> length px' = COLOR_ARRAY_LENGTH
                \<and> (\<forall>v \<in> set px'. length v = 4))"
    using px by (auto simp: r2_def)
  then show ?thesis by (rule exI [where x = "concat px"])
qed

lemma colorTable_built:
  assumes "rtype r = RAMP_COLOR" and "\<not> pAnimated (palette r)" and "cachedTexturePixels r = None"
    and "K = (if etype (attrs (input r)) = INPUT_CATEGORY
              then numCategoriesMinus1 (input r) else maxKey r)"
    and "getColorsFromPalette env (input r) (palette r) K = Inr cols" and "cols \<noteq> []"
  shows "\<exists>t. computeTextureIfNeeded env r =
           Inr (t, r\<lparr> texCategories := Val (numCategories (attrs (input r))), maxKey := K,
                      cachedTexturePixels := Some t \<rparr>)
         \<and> length t = 4 * COLOR_ARRAY_LENGTH \<and> (\<forall>v \<in> set t. isFinite v)"
  using colorTable_chunks [OF assms] by blast

lemma colorTable_entries:
  assumes "rtype r = RAMP_COLOR" and "\<not> pAnimated (palette r)" and "cachedTexturePixels r = None"
    and "K = (if etype (attrs (input r)) = INPUT_CATEGORY
              then numCategoriesMinus1 (input r) else maxKey r)"
    and "getColorsFromPalette env (input r) (palette r) K = Inr cols" and "cols \<noteq> []"
  shows "\<exists>t. computeTextureIfNeeded env r =
           Inr (t, r\<lparr> texCategories := Val (numCategories (attrs (input r))), maxKey := K,
                      cachedTexturePixels := Some t \<rparr>)
         \<and> length t = 4 * COLOR_ARRAY_LENGTH \<and> (\<forall>v \<in> set t. isFinite v)
         \<and> (\<forall>i < COLOR_ARRAY_LENGTH. colorRampPixel env cols i =
                Inr [t ! (4 * i), t ! (4 * i + 1), t ! (4 * i + 2), t ! (4 * i + 3)])"
proof -
  from colorTable_chunks [OF assms] obtain t px where
    run: "computeTextureIfNeeded env r =
           Inr (t, r\<lparr> texCategories := Val (numCategories (attrs (input r))), maxKey := K,
                      cachedTexturePixels := Some t \<rparr>)"
    and len: "length t = 4 * COLOR_ARRAY_LENGTH" and fin: "\<forall>v \<in> set t. isFinite v"
    and px: "sequenceE (map (colorRampPixel env cols) [0..<COLOR_ARRAY_LENGTH]) = Inr px"
    and t: "t = concat px" and n: "length px = COLOR_ARRAY_LENGTH"
    and four: "\<forall>v \<in> set px. length v = 4"
    by blast
  have "colorRampPixel env cols i = Inr [t ! (4 * i), t ! (4 * i + 1), t ! (4 * i + 2), t ! (4 * i + 3)]"
    if i: "i < COLOR_ARRAY_LENGTH" for i
  proof -
    have "colorRampPixel env cols ([0..<COLOR_ARRAY_LENGTH] ! i) = Inr (px ! i)"
      by (rule sequenceE_nth [OF px]) (simp add: i)
    then have p: "colorRampPixel env cols i = Inr (px ! i)" using i by simp
    have il: "i < length px" using i n by simp
    then have l4: "length (px ! i) = 4" using four by simp
    have "px ! i ! 0 = t ! (4 * i)" "px ! i ! 1 = t ! (4 * i + 1)"
      "px ! i ! 2 = t ! (4 * i + 2)" "px ! i ! 3 = t ! (4 * i + 3)"
      using concat_chunk [OF four il, of 0] concat_chunk [OF four il, of 1]
        concat_chunk [OF four il, of 2] concat_chunk [OF four il, of 3]
      unfolding t by simp_all
    with list4 [OF l4] have "px ! i = [t ! (4 * i), t ! (4 * i + 1), t ! (4 * i + 2), t ! (4 * i + 3)]"
      by simp
    with p show ?thesis by simp
  qed
  with run len fin show ?thesis by blast
qed

lemma getColorValue_NaN: "getColorValue t NaN = \<lparr> cr = NaN, cg = NaN, cb = NaN, ca = NaN \<rparr>"
  by (simp add: getColorValue_def numAt_def elemAt_def)

lemma colorIndex: "jround (jmul (Num x) (Num MAX_BYTE_VALUE)) = Num (of_int \<lfloor>x * 255 + 1 / 2\<rfloor>)"
  by (simp add: MAX_BYTE_VALUE_def)

lemma numAt_color_outside:
  assumes "length c = 4 * COLOR_ARRAY_LENGTH" and "k < 0 \<or> 256 \<le> k"
    and "0 \<le> j" and "j < 4"
  shows "numAt c (jadd (jmul (Num (of_int k)) (Num 4)) (Num (of_int j))) = NaN"
proof -
  have "of_int k * 4 + of_int j < (0::real) \<or> of_nat (length c) \<le> (of_int k * 4 + of_int j :: real)"
  proof -
    have "k * 4 + j < 0 \<or> 1024 \<le> k * 4 + j" using assms(2,3,4) by linarith
    then have "(of_int (k * 4 + j) :: real) < 0 \<or> (1024 :: real) \<le> of_int (k * 4 + j)"
      by (metis of_int_less_0_iff of_int_numeral of_int_le_iff)
    then show ?thesis using assms(1) by (simp add: COLOR_ARRAY_LENGTH_def)
  qed
  then show ?thesis by (simp add: numAt_def elemAt_outside)
qed

lemma getColorValue_outside:
  assumes "length c = 4 * COLOR_ARRAY_LENGTH" and "x * 255 + 1 / 2 < 0 \<or> 256 \<le> x * 255 + 1 / 2"
  shows "getColorValue c (Num x) = \<lparr> cr = NaN, cg = NaN, cb = NaN, ca = NaN \<rparr>"
proof -
  define k where "k = \<lfloor>x * 255 + 1 / 2\<rfloor>"
  have k: "k < 0 \<or> 256 \<le> k"
    using assms(2) unfolding k_def by (simp add: floor_less_iff le_floor_iff)
  have i: "jround (jmul (Num x) (Num MAX_BYTE_VALUE)) = Num (of_int k)"
    by (simp add: MAX_BYTE_VALUE_def k_def)
  show ?thesis
    unfolding getColorValue_def Let_def i
    using numAt_color_outside [OF assms(1) k, of 0] numAt_color_outside [OF assms(1) k, of 1]
      numAt_color_outside [OF assms(1) k, of 2] numAt_color_outside [OF assms(1) k, of 3]
    by simp
qed



lemma getColorValue_entry:
  assumes "length c = 4 * COLOR_ARRAY_LENGTH" and "0 \<le> x * 255 + 1 / 2" and "x * 255 + 1 / 2 < 256"
  shows "getColorValue c (Num x) =
           \<lparr> cr = jround (c ! (4 * nat \<lfloor>x * 255 + 1 / 2\<rfloor>)),
              cg = jround (c ! (4 * nat \<lfloor>x * 255 + 1 / 2\<rfloor> + 1)),
              cb = jround (c ! (4 * nat \<lfloor>x * 255 + 1 / 2\<rfloor> + 2)),
              ca = jdiv (jround (c ! (4 * nat \<lfloor>x * 255 + 1 / 2\<rfloor> + 3))) (Num 255) \<rparr>"
proof -
  define k where "k = \<lfloor>x * 255 + 1 / 2\<rfloor>"
  have k: "0 \<le> k" "k < 256"
    using assms(2,3) unfolding k_def by (simp_all add: floor_less_iff)
  have i: "jround (jmul (Num x) (Num MAX_BYTE_VALUE)) = Num (of_int k)"
    by (simp add: MAX_BYTE_VALUE_def k_def)
  have cell: "numAt c (jadd (jmul (Num (of_int k)) (Num 4)) (Num (of_int j))) = c ! (4 * nat k + nat j)"
    if "0 \<le> j" "j < 4" for j
  proof -
    have b: "0 \<le> k * 4 + j" "nat (k * 4 + j) < length c"
      using assms(1) k that by (simp_all add: COLOR_ARRAY_LENGTH_def)
    have "numAt c (Num (of_int (k * 4 + j))) = c ! nat (k * 4 + j)"
      using elemAt_inside [OF b] by (simp add: numAt_def)
    moreover have "nat (k * 4 + j) = 4 * nat k + nat j" using k that by linarith
    ultimately show ?thesis by simp
  qed
  show ?thesis
    unfolding getColorValue_def Let_def i k_def [symmetric]
    using cell [of 0] cell [of 1] cell [of 2] cell [of 3]
    by (simp add: MAX_BYTE_VALUE_def)
qed




text \<open>The table of a ramp over the colours \<open>[red, blue]\<close>: red at its first entry, blue at its last.\<close>

lemma redBlue_pixels:
  "colorRampPixel exampleEnv [C red, C blue] 0 = Inr [Num 255, Num 0, Num 0, Num 255]
   \<and> colorRampPixel exampleEnv [C red, C blue] 255 = Inr [Num 0, Num 0, Num 255, Num 255]"
  by (simp add: colorRampPixel_def Let_def elemAt_def bindE_def jsub_def
        COLOR_ARRAY_LENGTH_def MAX_BYTE_VALUE_def exampleEnv_def nearestColor_def red_def blue_def)

lemma redBlue_table:
  assumes "rtype r = RAMP_COLOR" and "\<not> pAnimated (palette r)" and "cachedTexturePixels r = None"
    and "K = (if etype (attrs (input r)) = INPUT_CATEGORY
              then numCategoriesMinus1 (input r) else maxKey r)"
    and "getColorsFromPalette exampleEnv (input r) (palette r) K = Inr [C red, C blue]"
  shows "\<exists>t. computeTextureIfNeeded exampleEnv r =
           Inr (t, r\<lparr> texCategories := Val (numCategories (attrs (input r))), maxKey := K,
                      cachedTexturePixels := Some t \<rparr>)
         \<and> length t = 4 * COLOR_ARRAY_LENGTH \<and> (\<forall>v \<in> set t. isFinite v)
         \<and> getColorValue t (Num 0) = red \<and> getColorValue t (Num 1) = blue"
proof -
  have ne: "[C red, C blue] \<noteq> []" by simp
  from colorTable_entries [OF assms ne] obtain t where
    run: "computeTextureIfNeeded exampleEnv r =
           Inr (t, r\<lparr> texCategories := Val (numCategories (attrs (input r))), maxKey := K,
                      cachedTexturePixels := Some t \<rparr>)"
    and len: "length t = 4 * COLOR_ARRAY_LENGTH" and fin: "\<forall>v \<in> set t. isFinite v"
    and px: "\<forall>i < COLOR_ARRAY_LENGTH. colorRampPixel exampleEnv [C red, C blue] i =
                Inr [t ! (4 * i), t ! (4 * i + 1), t ! (4 * i + 2), t ! (4 * i + 3)]"
    by blast
  have "colorRampPixel exampleEnv [C red, C blue] 0 = Inr [t ! (4 * 0), t ! (4 * 0 + 1), t ! (4 * 0 + 2), t ! (4 * 0 + 3)]"
    using px by (simp add: COLOR_ARRAY_LENGTH_def)
  with redBlue_pixels
  have "(Inr [t ! (4 * 0), t ! (4 * 0 + 1), t ! (4 * 0 + 2), t ! (4 * 0 + 3)] :: error + jsnum list)
          = Inr [Num 255, Num 0, Num 0, Num 255]"
    by simp
  then have first: "t ! (4 * 0) = Num 255 \<and> t ! (4 * 0 + 1) = Num 0 \<and> t ! (4 * 0 + 2) = Num 0
      \<and> t ! (4 * 0 + 3) = Num 255"
    by (simp only: sum.inject list.inject)
  have "colorRampPixel exampleEnv [C red, C blue] 255 =
      Inr [t ! (4 * 255), t ! (4 * 255 + 1), t ! (4 * 255 + 2), t ! (4 * 255 + 3)]"
    using px by (simp add: COLOR_ARRAY_LENGTH_def)
  with redBlue_pixels
  have "(Inr [t ! (4 * 255), t ! (4 * 255 + 1), t ! (4 * 255 + 2), t ! (4 * 255 + 3)] :: error + jsnum list)
          = Inr [Num 0, Num 0, Num 255, Num 255]"
    by simp
  then have last: "t ! (4 * 255) = Num 0 \<and> t ! (4 * 255 + 1) = Num 0 \<and> t ! (4 * 255 + 2) = Num 255
      \<and> t ! (4 * 255 + 3) = Num 255"
    by (simp only: sum.inject list.inject)
  have g0: "getColorValue t (Num 0) = red"
    using getColorValue_entry [OF len, of 0] first by (simp add: red_def)
  have "\<lfloor>(1::real) * 255 + 1 / 2\<rfloor> = 255" by (simp add: floor_eq_iff)
  then have g1: "getColorValue t (Num 1) = blue"
    using getColorValue_entry [OF len, of 1] last by (simp add: blue_def)
  from run len fin g0 g1 show ?thesis by blast
qed

lemma colorRamp_table:
  "\<exists>t. computeTextureIfNeeded exampleEnv (colorRamp names) =
         Inr (t, (colorRamp names)\<lparr> texCategories := Val (Some (length names)),
                   maxKey := Num (of_nat (length names) - 1), cachedTexturePixels := Some t \<rparr>)
       \<and> length t = 4 * COLOR_ARRAY_LENGTH \<and> (\<forall>v \<in> set t. isFinite v)"
proof -
  have h1: "rtype (colorRamp names) = RAMP_COLOR"
    and h2: "\<not> pAnimated (palette (colorRamp names))"
    and h3: "cachedTexturePixels (colorRamp names) = None"
    by (simp_all add: colorRamp_def colorPalette_def)
  have h4: "Num (of_nat (length names) - 1) =
      (if etype (attrs (input (colorRamp names))) = INPUT_CATEGORY
       then numCategoriesMinus1 (input (colorRamp names)) else maxKey (colorRamp names))"
    by (simp add: colorRamp_def kindInput_def numCategoriesMinus1_def)
  have h5: "getColorsFromPalette exampleEnv (input (colorRamp names)) (palette (colorRamp names))
      (Num (of_nat (length names) - 1)) = Inr [C red, C blue]"
    by (simp add: exampleEnv_def wholePalette_def colorRamp_def colorPalette_def)
  have h6: "[C red, C blue] \<noteq> []" by simp
  have nc: "numCategories (attrs (input (colorRamp names))) = Some (length names)"
    by (simp add: colorRamp_def kindInput_def)
  from colorTable_built [OF h1 h2 h3 h4 h5 h6] show ?thesis
    unfolding nc .
qed

lemma colorRamp_single_index:
  "\<exists>t. getRampValueByIndex exampleEnv (colorRamp [Some ''home'']) 0 =
         Inr (None, (colorRamp [Some ''home''])\<lparr> texCategories := Val (Some 1),
                      maxKey := Num 0, cachedTexturePixels := Some t \<rparr>)"
proof -
  define R where "R = colorRamp [Some ''home'']"
  from colorRamp_table [of "[Some ''home'']"]
  obtain t where "computeTextureIfNeeded exampleEnv R =
      Inr (t, R\<lparr> texCategories := Val (Some (length [Some ''home''])),
                maxKey := Num (of_nat (length [Some ''home'']) - 1), cachedTexturePixels := Some t \<rparr>)"
    unfolding R_def by blast
  then have t: "computeTextureIfNeeded exampleEnv R =
      Inr (t, R\<lparr> texCategories := Val (Some 1), maxKey := Num 0, cachedTexturePixels := Some t \<rparr>)"
    by simp
  have cp: "calcPaletteValues (palette R) = Inr (palette R)"
    by (simp add: R_def calcPaletteValues_def colorRamp_def colorPalette_def)
  have ty: "ptype (palette R) \<noteq> IMAGE" "rtype R = RAMP_COLOR" "minKey R = Num 0"
    by (simp_all add: R_def colorRamp_def colorPalette_def)
  have same: "R\<lparr> palette := palette R \<rparr> = R" by simp
  have m: "jdiv (jsub (Num 0) (Num 0)) (jsub (Num 0) (Num 0)) = NaN"
    by (simp add: jsub_def)
  have res: "getRampValueByIndex exampleEnv R 0 =
         Inr (None, R\<lparr> texCategories := Val (Some 1), maxKey := Num 0, cachedTexturePixels := Some t \<rparr>)"
    unfolding getRampValueByIndex_def
    by (simp add: ty cp same t bindE_def Let_def m getColorValue_NaN anyChannelNaN_def isNaN_def)
  show ?thesis
    unfolding R_def [symmetric] by (rule exI [where x = t]) (rule res)
qed

subsection \<open>Evaluation reads the table\<close>

text \<open>
  Whenever \<open>eval\<close> returns, the table \<open>tex\<close> it has read is the one
  \<open>_computeTextureIfNeeded\<close> returns and caches; the keys are those of the ramp, \<open>maxKey\<close>
  being reset to the category count less one when the table is built over a category
  input. With \<open>m = (input - minKey) / (maxKey - minKey)\<close>, a colour ramp returns the four
  bytes of table entry \<open>round(m * 255)\<close> and nothing else; a numeric ramp interpolates
  between the cells at \<open>floor\<close> and \<open>ceil\<close> of \<open>m * (tableLength - 1)\<close>, both clamped into
  the table, and returns \<open>Math.round\<close> of the interpolated value.
\<close>

lemma Ramp_eval_reads_table:
  assumes "Ramp_eval env r feat = Inr (v, r')"
  shows "\<exists>p tex x. calcPaletteValues (palette r) = Inr p
     \<and> computeTextureIfNeeded env (r\<lparr> palette := p \<rparr>) = Inr (tex, r')
     \<and> cachedTexturePixels r' = Some tex
     \<and> evalIn (attrs (input r)) feat = Inr x
     \<and> input r' = input r \<and> rtype r' = rtype r \<and> minKey r' = minKey r
     \<and> maxKey r' = (if (cachedTexturePixels r = None \<or> pAnimated (palette r))
                         \<and> etype (attrs (input r)) = INPUT_CATEGORY
                      then numCategoriesMinus1 (input r) else maxKey r)
     \<and> (let m = jdiv (jsub x (minKey r)) (jsub (maxKey r') (minKey r));
            index = jround (jmul m (Num 255));
            n = Num (of_nat (length tex) - 1);
            low = numAt tex (clamp (jfloor (jmul n m)) (Num 0) n);
            high = numAt tex (clamp (jceil (jmul n m)) (Num 0) n);
            fract = jsub (jmul n m) (jfloor (jmul n m))
        in v = (if rtype r = RAMP_NUMBER
                then NumberV (jround (jadd (jmul fract high) (jmul (jsub (Num 1) fract) low)))
                else ColorV \<lparr> cr = jround (numAt tex (jadd (jmul index (Num 4)) (Num 0))),
                              cg = jround (numAt tex (jadd (jmul index (Num 4)) (Num 1))),
                              cb = jround (numAt tex (jadd (jmul index (Num 4)) (Num 2))),
                              ca = jdiv (jround (numAt tex (jadd (jmul index (Num 4)) (Num 3)))) (Num 255) \<rparr>))"
proof -
  from assms obtain p tex r1 x where
    p: "calcPaletteValues (palette r) = Inr p"
    and t: "computeTextureIfNeeded env (r\<lparr> palette := p \<rparr>) = Inr (tex, r1)"
    and x: "evalIn (attrs (input r1)) feat = Inr x"
    and res: "Inr (if rtype r1 = RAMP_NUMBER
               then NumberV (getValue tex (Num (of_nat (length tex) - 1))
                      (jdiv (jsub x (minKey r1)) (jsub (maxKey r1) (minKey r1))))
               else ColorV (getColorValue tex
                      (jdiv (jsub x (minKey r1)) (jsub (maxKey r1) (minKey r1)))), r1)
             = (Inr (v, r') :: error + rampValue \<times> ramp)"
    by (auto simp: Ramp_eval_def bindE_Inr_iff Let_def)
  from res have r': "r' = r1" by simp
  from computeTextureIfNeeded_fields [OF t]
  have c: "cachedTexturePixels r1 = Some tex" "input r1 = input r" "rtype r1 = rtype r"
    "minKey r1 = minKey r" by simp_all
  from calcPaletteValues_fields [OF p] have a: "pAnimated p = pAnimated (palette r)" by simp
  from computeTextureIfNeeded_keys [OF t] a
  have k: "maxKey r1 = (if (cachedTexturePixels r = None \<or> pAnimated (palette r))
                         \<and> etype (attrs (input r)) = INPUT_CATEGORY
                      then numCategoriesMinus1 (input r) else maxKey r)" by simp
  have val: "v = (if rtype r = RAMP_NUMBER
               then NumberV (getValue tex (Num (of_nat (length tex) - 1))
                      (jdiv (jsub x (minKey r)) (jsub (maxKey r1) (minKey r))))
               else ColorV (getColorValue tex
                      (jdiv (jsub x (minKey r)) (jsub (maxKey r1) (minKey r)))))"
    using res c by auto
  have x': "evalIn (attrs (input r)) feat = Inr x" using x c by simp
  show ?thesis
    unfolding r'
    apply (rule exI [where x = p], rule exI [where x = tex], rule exI [where x = x])
    apply (intro conjI)
            apply (rule p, rule t, rule c(1), rule x', rule c(2), rule c(3), rule c(4), rule k)
    using val by (simp add: getValue_def getColorValue_def Let_def MAX_BYTE_VALUE_def)
qed

text \<open>
  C1. The claim: CPU evaluation computes the normalized position
  \<open>m = (input - minKey) / (maxKey - minKey)\<close>; a colour ramp then reads the table at index
  \<open>round(m * 255)\<close> without interpolating, and a numeric ramp interpolates linearly between
  the two table cells that bracket \<open>m * (tableLength - 1)\<close>. The position and the colour
  lookup are as claimed. The numeric lookup interpolates as claimed and then rounds the
  interpolated value to an integer. The ramp \<open>ramp(linear($x, 0, 1), [1.5, 10])\<close> at
  \<open>x = 1/2\<close> stands at position 127.5 of its table; the cells 127 and 128 hold \<open>86/15\<close> and
  \<open>173/30\<close>, which interpolate to 5.75; \<open>eval\<close> returns 6.
\<close>

theorem Ramp_eval_rounds_interpolation:
  "Ramp_eval exampleEnv sizeRamp [(''x'', Num (1 / 2))] = Inr (NumberV (Num 6), sizeRampBuilt)
   \<and> cachedTexturePixels sizeRampBuilt = Some sizeTable
   \<and> jmul (Num (of_nat (length sizeTable) - 1)) (Num (1 / 2)) = Num (255 / 2)
   \<and> numAt sizeTable (Num 127) = Num (86 / 15)
   \<and> numAt sizeTable (Num 128) = Num (173 / 30)
   \<and> jadd (jmul (Num (1 / 2)) (numAt sizeTable (Num 128))) (jmul (Num (1 / 2)) (numAt sizeTable (Num 127)))
       = Num (23 / 4)"
  using sizeRamp_eval_at [OF getValue_sizeTable_half] sizeTable_cells sizeTable_ends
  by (simp add: sizeRampBuilt_def)

subsection \<open>The ends of a numeric ramp\<close>

text \<open>
  For a numeric ramp whose table is built from the palette values \<open>fs\<close> (first value \<open>a\<close>,
  last value \<open>b\<close>, both finite, stored in single precision as \<open>a'\<close> and \<open>b'\<close>), \<open>eval\<close> at
  the normalized inputs 0 and 1 returns \<open>Math.round(a')\<close> and \<open>Math.round(b')\<close>. \<open>K\<close> is
  \<open>maxKey\<close> as the build leaves it.
\<close>

lemma Ramp_eval_at_ends:
  assumes "rtype r = RAMP_NUMBER" and "ptype (palette r) = NUMBER_ARRAY"
    and "peval (palette r) = Inr fs" and "fs \<noteq> []"
    and "hd fs = N (Num a)" and "last fs = N (Num b)"
    and "fround env (Num a) = Num a'" and "fround env (Num b) = Num b'"
    and "cachedTexturePixels r = None \<or> pAnimated (palette r)"
    and "evalIn (attrs (input r)) feat0 = Inr x0" and "evalIn (attrs (input r)) feat1 = Inr x1"
    and "K = (if etype (attrs (input r)) = INPUT_CATEGORY
              then numCategoriesMinus1 (input r) else maxKey r)"
    and "jdiv (jsub x0 (minKey r)) (jsub K (minKey r)) = Num 0"
    and "jdiv (jsub x1 (minKey r)) (jsub K (minKey r)) = Num 1"
  shows "(\<exists>r'. Ramp_eval env r feat0 = Inr (NumberV (jround (Num a')), r'))
       \<and> (\<exists>r'. Ramp_eval env r feat1 = Inr (NumberV (jround (Num b')), r'))"
proof -
  define p where "p = (palette r)\<lparr> floats := Some fs \<rparr>"
  define t where "t = map (numericRampPixel env fs) [0..<COLOR_ARRAY_LENGTH]"
  define r1 where "r1 = r\<lparr> palette := p,
      texCategories := Val (numCategories (attrs (input r))), maxKey := K,
      cachedTexturePixels := Some t \<rparr>"
  have cp: "calcPaletteValues (palette r) = Inr p"
    using assms(2,3) by (simp add: calcPaletteValues_def p_def)
  have "computeTextureIfNeeded env (r\<lparr> palette := p \<rparr>) = Inr (t, r1)"
    using numericTable_built [of "r\<lparr> palette := p \<rparr>" fs env] assms(1,9,12)
    by (simp add: p_def t_def r1_def)
  note ct = this
  have len: "length t = 256" by (simp add: t_def COLOR_ARRAY_LENGTH_def)
  have t0: "t ! 0 = Num a'"
    using numericRampPixel_first [OF assms(4,5), of env] assms(7)
    by (simp add: t_def COLOR_ARRAY_LENGTH_def)
  have t255: "t ! 255 = Num b'"
    using numericRampPixel_last [OF assms(4,6), of env] assms(8)
    by (simp add: t_def COLOR_ARRAY_LENGTH_def)
  have f: "input r1 = input r" "minKey r1 = minKey r" "maxKey r1 = K" "rtype r1 = RAMP_NUMBER"
    using assms(1) by (simp_all add: r1_def)
  have "Ramp_eval env r feat0 = Inr (NumberV (jround (Num a')), r1)"
    using cp ct assms(10,13) getValue_table_first [OF len t0]
    by (simp add: Ramp_eval_def bindE_def f len Let_def)
  moreover have "Ramp_eval env r feat1 = Inr (NumberV (jround (Num b')), r1)"
    using cp ct assms(11,14) getValue_table_last [OF len t255]
    by (simp add: Ramp_eval_def bindE_def f len Let_def)
  ultimately show ?thesis by blast
qed

text \<open>
  C2. The claim: a numeric ramp evaluated at the normalized inputs 0 and 1 returns
  exactly the first and the last value of its palette. The table does hold them: cell 0
  of the table of \<open>ramp(linear($x, 0, 1), [1.5, 10])\<close> is 1.5 and cell 255 is 10. But
  \<open>eval\<close> returns \<open>Math.round\<close> of the cell: 2 at \<open>x = 0\<close>, where the palette starts at 1.5,
  and 10 at \<open>x = 1\<close>.
\<close>

theorem Ramp_eval_rounds_endpoint:
  "Ramp_new exampleEnv linearX sizePalette = Inr sizeRamp
   \<and> peval sizePalette = Inr [N (Num (3 / 2)), N (Num 10)]
   \<and> Ramp_eval exampleEnv sizeRamp [(''x'', Num 0)] = Inr (NumberV (Num 2), sizeRampBuilt)
   \<and> Ramp_eval exampleEnv sizeRamp [(''x'', Num 1)] = Inr (NumberV (Num 10), sizeRampBuilt)
   \<and> cachedTexturePixels sizeRampBuilt = Some sizeTable
   \<and> numAt sizeTable (Num 0) = Num (3 / 2)
   \<and> numAt sizeTable (Num 255) = Num 10"
  using sizeRamp_new sizeRamp_eval_first sizeRamp_eval_at [OF getValue_sizeTable_one] sizeTable_cells
  by (simp add: sizePalette_def sizeRampBuilt_def)

subsection \<open>Inputs outside the unit interval\<close>





lemma getRampValueByIndex_color:
  assumes "getRampValueByIndex env r i = Inr (v, r')"
    and "ptype (palette r) \<noteq> IMAGE" and "rtype r = RAMP_COLOR"
  shows "\<exists>tex. cachedTexturePixels r' = Some tex
     \<and> v = (let col = ColorV (getColorValue tex
                  (jdiv (jsub (Num (of_nat i)) (minKey r')) (jsub (maxKey r') (minKey r'))))
            in if anyChannelNaN col then None else Some col)"
proof -
  from assms(1,2) obtain p tex r1 where
    p: "calcPaletteValues (palette r) = Inr p"
    and t: "computeTextureIfNeeded env (r\<lparr> palette := p \<rparr>) = Inr (tex, r1)"
    and res: "(let numValues = Num (of_nat (length tex) - 1);
              m = jdiv (jsub (Num (of_nat i)) (minKey r1)) (jsub (maxKey r1) (minKey r1));
              color = (if rtype r1 = RAMP_NUMBER
                       then NumberV (getValue tex numValues m)
                       else ColorV (getColorValue tex m))
          in (Inr (if anyChannelNaN color then None else Some color, r1) :: error + rampValue option \<times> ramp))
          = Inr (v, r')"
    by (auto simp: getRampValueByIndex_def bindE_Inr_iff)
  from computeTextureIfNeeded_fields [OF t] assms(3)
  have c: "cachedTexturePixels r1 = Some tex" and ty: "rtype r1 = RAMP_COLOR" by simp_all
  from res have "r' = r1" by (simp add: Let_def)
  then show ?thesis using res c ty by (auto simp: Let_def)
qed




subsection \<open>The legend\<close>

lemma getRampValueByIndex_result:
  assumes "getRampValueByIndex env r i = Inr (v, r')"
  shows "(v = None \<or> (\<exists>x. v = Some x \<and> \<not> anyChannelNaN x)) \<and> input r' = input r"
proof (cases "ptype (palette r) = IMAGE")
  case True
  with assms show ?thesis
    by (auto simp: getRampValueByIndex_def anyChannelNaN_def split: if_splits)
next
  case False
  with assms obtain p tex r1 where
    t: "computeTextureIfNeeded env (r\<lparr> palette := p \<rparr>) = Inr (tex, r1)"
    and res: "(let numValues = Num (of_nat (length tex) - 1);
              m = jdiv (jsub (Num (of_nat i)) (minKey r1)) (jsub (maxKey r1) (minKey r1));
              color = (if rtype r1 = RAMP_NUMBER
                       then NumberV (getValue tex numValues m)
                       else ColorV (getColorValue tex m))
          in (Inr (if anyChannelNaN color then None else Some color, r1) :: error + rampValue option \<times> ramp))
          = Inr (v, r')"
    by (auto simp: getRampValueByIndex_def bindE_Inr_iff)
  from computeTextureIfNeeded_fields [OF t] have "input r1 = input r" by simp
  moreover from res have "r' = r1" by (simp add: Let_def)
  moreover from res have "v = None \<or> (\<exists>x. v = Some x \<and> \<not> anyChannelNaN x)"
    by (auto simp: Let_def split: if_splits)
  ultimately show ?thesis by simp
qed

lemma valuesOf_shape:
  assumes "v = None \<or> (\<exists>x. v = Some x \<and> \<not> anyChannelNaN x)"
  shows "valuesOf v = None \<or> (\<exists>x. valuesOf v = Some [x] \<and> \<not> anyChannelNaN x)"
  using assms by (auto simp: valuesOf_def split: rampValue.splits)

lemma valuesOf_color: "valuesOf (if anyChannelNaN (ColorV c) then None else Some (ColorV c)) = None
    \<longleftrightarrow> anyChannelNaN (ColorV c)"
  by (simp add: valuesOf_def)

lemma getLegendItemValue_reportable:
  assumes "getLegendItemValue env r c i = Inr (e, r')"
  shows "values' e = None \<or> (\<exists>x. values' e = Some [x] \<and> \<not> anyChannelNaN x)"
proof -
  from assms obtain v where run: "getRampValueByIndex env r i = Inr (v, r')"
    and e: "e = \<lparr> ename = Some (getCategoryName c), values' = valuesOf v \<rparr>"
    by (auto simp: getLegendItemValue_def bindE_Inr_iff)
  from getRampValueByIndex_result [OF run]
  have "v = None \<or> (\<exists>x. v = Some x \<and> \<not> anyChannelNaN x)" by simp
  from valuesOf_shape [OF this] show ?thesis by (simp add: e)
qed

lemma getLegendCategoryValue_reportable:
  assumes "getLegendCategoryValue env r c i opts = Inr (e, r')"
  shows "values' e = None \<or> (\<exists>x. values' e = Some [x] \<and> \<not> anyChannelNaN x)"
proof -
  from assms obtain v where run: "getRampValueByIndex env r i = Inr (v, r')"
    and e: "values' e = valuesOf v"
    by (auto simp: getLegendCategoryValue_def bindE_Inr_iff split: if_splits)
  from getRampValueByIndex_result [OF run]
  have "v = None \<or> (\<exists>x. v = Some x \<and> \<not> anyChannelNaN x)" by simp
  from valuesOf_shape [OF this] show ?thesis by (simp add: e)
qed

lemma mapLegend_all:
  assumes "\<And>r c i e r'. f r c i = Inr (e, r') \<Longrightarrow> P e"
    and "mapLegend f r cs i = Inr (es, r')"
  shows "\<forall>e \<in> set es. P e"
  using assms(2)
proof (induction cs arbitrary: r i es)
  case Nil
  then show ?case by simp
next
  case (Cons c cs)
  then obtain e r1 es' where e: "f r c i = Inr (e, r1)"
    and rest: "mapLegend f r1 cs (Suc i) = Inr (es', r')" and es: "es = e # es'"
    by (auto split: sum.splits)
  from assms(1) [OF e] Cons.IH [OF rest] es show ?case by simp
qed

lemma mapLegend_nth:
  assumes step: "\<And>r c i e r'. input r = I \<Longrightarrow> f r c i = Inr (e, r') \<Longrightarrow> P i c e \<and> input r' = I"
    and "input r = I" and "mapLegend f r cs k = Inr (es, r')"
  shows "length es = length cs \<and> (\<forall>j < length cs. P (k + j) (cs ! j) (es ! j))"
  using assms(2,3)
proof (induction cs arbitrary: r k es)
  case Nil
  then show ?case by simp
next
  case (Cons c cs)
  from Cons.prems(2) obtain e r1 es' where e: "f r c k = Inr (e, r1)"
    and rest: "mapLegend f r1 cs (Suc k) = Inr (es', r')" and es: "es = e # es'"
    by (auto split: sum.splits)
  from step [OF Cons.prems(1) e] have p: "P k c e" and i1: "input r1 = I" by simp_all
  from Cons.IH [OF i1 rest]
  have l: "length es' = length cs" and a: "\<forall>j < length cs. P (Suc k + j) (cs ! j) (es' ! j)"
    by simp_all
  have "P (k + j) ((c # cs) ! j) (es ! j)" if "j < length (c # cs)" for j
  proof (cases j)
    case 0
    with p es show ?thesis by simp
  next
    case (Suc j')
    with that have "j' < length cs" by simp
    with a have "P (Suc k + j') (cs ! j') (es' ! j')" by simp
    with Suc es show ?thesis by simp
  qed
  with l es show ?case by simp
qed

lemma filter_reportable:
  assumes "\<forall>e \<in> set all. values' e = None \<or> (\<exists>x. values' e = Some [x] \<and> \<not> anyChannelNaN x)"
    and "e \<in> set (filter (\<lambda>legend. values' legend \<noteq> None) all)"
  shows "\<exists>v. values' e = Some [v] \<and> \<not> anyChannelNaN v"
proof -
  from assms(2) have "e \<in> set all" and "values' e \<noteq> None" by simp_all
  with assms(1) show ?thesis by auto
qed

lemma getLeyendCategories_entries:
  assumes "getLeyendCategories env r opts = Inr (entries, r')" and "e \<in> set entries"
  shows "\<exists>v. values' e = Some [v] \<and> \<not> anyChannelNaN v"
proof -
  from assms(1) obtain all where
    m: "mapLegend (\<lambda>r' category index. getLegendCategoryValue env r' category index opts)
          r (categories (attrs (input r))) 0 = Inr (all, r')"
    and f: "entries = filter (\<lambda>legend. values' legend \<noteq> None) all"
    unfolding getLeyendCategories_def bindE_Inr_iff by auto
  have "\<forall>e \<in> set all. values' e = None \<or> (\<exists>x. values' e = Some [x] \<and> \<not> anyChannelNaN x)"
    by (rule mapLegend_all [where f = "\<lambda>r' category index. getLegendCategoryValue env r' category index opts"
          and P = "\<lambda>e. values' e = None \<or> (\<exists>x. values' e = Some [x] \<and> \<not> anyChannelNaN x)", OF _ m])
       (rule getLegendCategoryValue_reportable)
  from filter_reportable [OF this] assms(2) f show ?thesis by simp
qed

lemma getLegendList_entries:
  assumes "getLegendList env r elems = Inr (entries, r')" and "e \<in> set entries"
  shows "\<exists>v. values' e = Some [v] \<and> \<not> anyChannelNaN v"
proof -
  from assms(1) obtain all where
    m: "mapLegend (getLegendItemValue env) r elems 0 = Inr (all, r')"
    and f: "entries = filter (\<lambda>legend. values' legend \<noteq> None) all"
    unfolding getLegendList_def bindE_Inr_iff by auto
  have "\<forall>e \<in> set all. values' e = None \<or> (\<exists>x. values' e = Some [x] \<and> \<not> anyChannelNaN x)"
    by (rule mapLegend_all [where f = "getLegendItemValue env"
          and P = "\<lambda>e. values' e = None \<or> (\<exists>x. values' e = Some [x] \<and> \<not> anyChannelNaN x)", OF _ m])
       (rule getLegendItemValue_reportable)
  from filter_reportable [OF this] assms(2) f show ?thesis by simp
qed

lemma getLegend_categories_path:
  assumes "getLegend env r opts = Inr (Some entries, r')" and "\<not> isA (input r) Linear"
    and "listElems (attrs (input r)) = None"
  shows "\<exists>all. mapLegend (\<lambda>q c i. getLegendCategoryValue env q c i opts) r
                  (categories (attrs (input r))) 0 = Inr (all, r')
       \<and> entries = filter (\<lambda>legend. values' legend \<noteq> None) all"
proof -
  from assms have cat: "etype (attrs (input r)) = INPUT_CATEGORY"
    unfolding getLegend_def by (simp split: if_splits)
  with assms have "getLeyendCategories env r opts = Inr (entries, r')"
    unfolding getLegend_def bindE_def by (simp split: sum.splits prod.splits)
  then show ?thesis
    unfolding getLeyendCategories_def bindE_Inr_iff by auto
qed

lemma getLegend_list_path:
  assumes "getLegend env r opts = Inr (Some entries, r')" and "\<not> isA (input r) Linear"
    and "listElems (attrs (input r)) = Some elems"
  shows "\<exists>all. mapLegend (getLegendItemValue env) r elems 0 = Inr (all, r')
       \<and> entries = filter (\<lambda>legend. values' legend \<noteq> None) all"
proof -
  from assms have cat: "etype (attrs (input r)) = INPUT_CATEGORY"
    unfolding getLegend_def by (simp split: if_splits)
  with assms have "getLegendList env r elems = Inr (entries, r')"
    unfolding getLegend_def bindE_def by (simp split: sum.splits prod.splits)
  then show ?thesis
    unfolding getLegendList_def bindE_Inr_iff by auto
qed

lemma imageRamp_legend:
  "getLegend exampleEnv imageRamp opts =
     Inr (Some [\<lparr> ename = Some ''bus'', values' = Some [UrlV ''bus.svg''] \<rparr>,
                \<lparr> ename = Some (case map_of opts ''defaultOthers'' of
                                   None \<Rightarrow> DEFAULT_OTHERS_NAME
                                 | Some s \<Rightarrow> if s = [] then DEFAULT_OTHERS_NAME else s),
                  values' = Some [UrlV ''any.svg''] \<rparr>], imageRamp)"
proof -
  have i: "input imageRamp = topInput" "ptype (palette imageRamp) = IMAGE"
    "imageUrls (palette imageRamp) = [''bus.svg'', ''any.svg'']"
    by (simp_all add: imageRamp_def imagePalette_def)
  have t: "isA topInput Top" "\<not> isA topInput Linear" "numBuckets (attrs topInput) = Some 1"
    "etype (attrs topInput) = INPUT_CATEGORY" "listElems (attrs topInput) = None"
    "categories (attrs topInput) = [Some ''bus'', None]"
    by (simp_all add: topInput_def isA_def)
  have v0: "getRampValueByIndex exampleEnv imageRamp 0 = Inr (Some (UrlV ''bus.svg''), imageRamp)"
    and v1: "getRampValueByIndex exampleEnv imageRamp (Suc 0) = Inr (Some (UrlV ''any.svg''), imageRamp)"
    by (simp_all add: getRampValueByIndex_def i)
  have c0: "getLegendCategoryValue exampleEnv imageRamp (Some ''bus'') 0 opts =
      Inr (\<lparr> ename = Some ''bus'', values' = Some [UrlV ''bus.svg''] \<rparr>, imageRamp)"
    by (simp add: getLegendCategoryValue_def v0 bindE_def i t getCategoryName_def valuesOf_def)
  have c1: "getLegendCategoryValue exampleEnv imageRamp None (Suc 0) opts =
      Inr (\<lparr> ename = Some (case map_of opts ''defaultOthers'' of
                                   None \<Rightarrow> DEFAULT_OTHERS_NAME
                                 | Some s \<Rightarrow> if s = [] then DEFAULT_OTHERS_NAME else s),
                  values' = Some [UrlV ''any.svg''] \<rparr>, imageRamp)"
    by (simp add: getLegendCategoryValue_def v1 bindE_def i t valuesOf_def)
  show ?thesis
    by (simp add: getLegend_def getLeyendCategories_def i t c0 c1 bindE_def)
qed

lemma listedRamp_legend:
  "getLegend exampleEnv listedRamp opts =
     Inr (Some [\<lparr> ename = Some ''bus'', values' = Some [UrlV ''bus.svg''] \<rparr>,
                \<lparr> ename = Some ''Others'', values' = Some [UrlV ''any.svg''] \<rparr>], listedRamp)"
proof -
  have i: "input listedRamp = listedInput" "ptype (palette listedRamp) = IMAGE"
    "imageUrls (palette listedRamp) = [''bus.svg'', ''any.svg'']"
    by (simp_all add: listedRamp_def imageRamp_def imagePalette_def)
  have t: "\<not> isA listedInput Linear" "etype (attrs listedInput) = INPUT_CATEGORY"
    "listElems (attrs listedInput) = Some [Some ''bus'', None]"
    by (simp_all add: listedInput_def isA_def)
  have v0: "getRampValueByIndex exampleEnv listedRamp 0 = Inr (Some (UrlV ''bus.svg''), listedRamp)"
    and v1: "getRampValueByIndex exampleEnv listedRamp (Suc 0) = Inr (Some (UrlV ''any.svg''), listedRamp)"
    by (simp_all add: getRampValueByIndex_def i)
  have c0: "getLegendItemValue exampleEnv listedRamp (Some ''bus'') 0 =
      Inr (\<lparr> ename = Some ''bus'', values' = Some [UrlV ''bus.svg''] \<rparr>, listedRamp)"
    by (simp add: getLegendItemValue_def v0 bindE_def getCategoryName_def valuesOf_def)
  have c1: "getLegendItemValue exampleEnv listedRamp None (Suc 0) =
      Inr (\<lparr> ename = Some ''Others'', values' = Some [UrlV ''any.svg''] \<rparr>, listedRamp)"
    by (simp add: getLegendItemValue_def v1 bindE_def getCategoryName_def valuesOf_def DEFAULT_OTHERS_NAME_def)
  show ?thesis
    by (simp add: getLegend_def getLegendList_def i t c0 c1 bindE_def)
qed

lemma topColorRamp_values:
  "\<exists>t. getRampValueByIndex exampleEnv topColorRamp 0 =
         Inr (Some (ColorV red), topColorRamp\<lparr> texCategories := Val (Some 2), maxKey := Num 1,
                                     cachedTexturePixels := Some t \<rparr>)
     \<and> getRampValueByIndex exampleEnv
         (topColorRamp\<lparr> texCategories := Val (Some 2), maxKey := Num 1, cachedTexturePixels := Some t \<rparr>) 1
       = Inr (Some (ColorV blue), topColorRamp\<lparr> texCategories := Val (Some 2), maxKey := Num 1,
                                     cachedTexturePixels := Some t \<rparr>)
     \<and> getRampValueByIndex exampleEnv
         (topColorRamp\<lparr> texCategories := Val (Some 2), maxKey := Num 1, cachedTexturePixels := Some t \<rparr>) 2
       = Inr (None, topColorRamp\<lparr> texCategories := Val (Some 2), maxKey := Num 1,
                                     cachedTexturePixels := Some t \<rparr>)
     \<and> length t = 4 * COLOR_ARRAY_LENGTH
     \<and> getColorValue t (Num 2) = \<lparr> cr = NaN, cg = NaN, cb = NaN, ca = NaN \<rparr>"
proof -
  define R where "R = topColorRamp"
  have h1: "rtype R = RAMP_COLOR" and h2: "\<not> pAnimated (palette R)"
    and h3: "cachedTexturePixels R = None"
    by (simp_all add: R_def topColorRamp_def colorRamp_def colorPalette_def)
  have h4: "Num 1 = (if etype (attrs (input R)) = INPUT_CATEGORY
       then numCategoriesMinus1 (input R) else maxKey R)"
    by (simp add: R_def topColorRamp_def topOverKinds_def numCategoriesMinus1_def)
  have h5: "getColorsFromPalette exampleEnv (input R) (palette R) (Num 1) = Inr [C red, C blue]"
    by (simp add: exampleEnv_def wholePalette_def R_def topColorRamp_def colorRamp_def colorPalette_def)
  have nc: "numCategories (attrs (input R)) = Some 2"
    by (simp add: R_def topColorRamp_def topOverKinds_def)
  from redBlue_table [OF h1 h2 h3 h4 h5] obtain t where
    run: "computeTextureIfNeeded exampleEnv R =
           Inr (t, R\<lparr> texCategories := Val (Some 2), maxKey := Num 1, cachedTexturePixels := Some t \<rparr>)"
    and len: "length t = 4 * COLOR_ARRAY_LENGTH"
    and g0: "getColorValue t (Num 0) = red" and g1: "getColorValue t (Num 1) = blue"
    unfolding nc by blast
  define R' where "R' = R\<lparr> texCategories := Val (Some 2), maxKey := Num 1, cachedTexturePixels := Some t \<rparr>"
  have g2: "getColorValue t (Num 2) = \<lparr> cr = NaN, cg = NaN, cb = NaN, ca = NaN \<rparr>"
    by (rule getColorValue_outside [OF len]) simp
  have cp: "calcPaletteValues (palette R) = Inr (palette R)"
    "calcPaletteValues (palette R') = Inr (palette R')"
    by (simp_all add: R'_def R_def calcPaletteValues_def topColorRamp_def colorRamp_def colorPalette_def)
  have same: "R\<lparr> palette := palette R \<rparr> = R" "R'\<lparr> palette := palette R' \<rparr> = R'" by simp_all
  have ty: "ptype (palette R) \<noteq> IMAGE" "ptype (palette R') \<noteq> IMAGE"
    by (simp_all add: R'_def R_def topColorRamp_def colorRamp_def colorPalette_def)
  have k: "rtype R' = RAMP_COLOR" "minKey R' = Num 0" "maxKey R' = Num 1"
    by (simp_all add: R'_def R_def topColorRamp_def colorRamp_def)
  have run': "computeTextureIfNeeded exampleEnv R' = Inr (t, R')"
    by (rule cached_table_reused) (simp_all add: R'_def h2)
  have nn: "\<not> anyChannelNaN (ColorV red)" "\<not> anyChannelNaN (ColorV blue)"
    "anyChannelNaN (ColorV \<lparr> cr = NaN, cg = NaN, cb = NaN, ca = NaN \<rparr>)"
    by (simp_all add: anyChannelNaN_def isNaN_def red_def blue_def)
  have v0: "getRampValueByIndex exampleEnv R 0 = Inr (Some (ColorV red), R')"
    unfolding getRampValueByIndex_def
    by (simp add: ty cp same run [folded R'_def] bindE_def Let_def k jsub_def g0 nn)
  have v1: "getRampValueByIndex exampleEnv R' 1 = Inr (Some (ColorV blue), R')"
    unfolding getRampValueByIndex_def
    by (simp add: ty cp same run' bindE_def Let_def k jsub_def g1 nn)
  have v2: "getRampValueByIndex exampleEnv R' 2 = Inr (None, R')"
    unfolding getRampValueByIndex_def
    by (simp add: ty cp same run' bindE_def Let_def k jsub_def g2 nn)
  show ?thesis
    apply (rule exI [where x = t])
    unfolding R_def [symmetric] R'_def [symmetric]
    by (intro conjI) (rule v0, rule v1, rule v2, rule len, rule g2)
qed

lemma topColorRamp_legend:
  "\<exists>t. getLegend exampleEnv topColorRamp [] =
         Inr (Some [\<lparr> ename = Some ''bus'', values' = Some [ColorV red] \<rparr>,
                    \<lparr> ename = Some ''Others'', values' = Some [ColorV blue] \<rparr>],
              topColorRamp\<lparr> texCategories := Val (Some 2), maxKey := Num 1,
                            cachedTexturePixels := Some t \<rparr>)
     \<and> getLegendCategoryValue exampleEnv
         (topColorRamp\<lparr> texCategories := Val (Some 2), maxKey := Num 1, cachedTexturePixels := Some t \<rparr>)
         (Some ''tram'') 2 []
       = Inr (\<lparr> ename = Some ''tram'', values' = None \<rparr>,
              topColorRamp\<lparr> texCategories := Val (Some 2), maxKey := Num 1,
                            cachedTexturePixels := Some t \<rparr>)"
proof -
  from topColorRamp_values obtain t where
    v0: "getRampValueByIndex exampleEnv topColorRamp 0 =
         Inr (Some (ColorV red), topColorRamp\<lparr> texCategories := Val (Some 2), maxKey := Num 1,
                                     cachedTexturePixels := Some t \<rparr>)"
    and v1: "getRampValueByIndex exampleEnv
         (topColorRamp\<lparr> texCategories := Val (Some 2), maxKey := Num 1, cachedTexturePixels := Some t \<rparr>) 1
       = Inr (Some (ColorV blue), topColorRamp\<lparr> texCategories := Val (Some 2), maxKey := Num 1,
                                     cachedTexturePixels := Some t \<rparr>)"
    and v2: "getRampValueByIndex exampleEnv
         (topColorRamp\<lparr> texCategories := Val (Some 2), maxKey := Num 1, cachedTexturePixels := Some t \<rparr>) 2
       = Inr (None, topColorRamp\<lparr> texCategories := Val (Some 2), maxKey := Num 1,
                                     cachedTexturePixels := Some t \<rparr>)"
    by blast
  define R' where "R' = topColorRamp\<lparr> texCategories := Val (Some 2), maxKey := Num 1,
                            cachedTexturePixels := Some t \<rparr>"
  have i: "input topColorRamp = topOverKinds" "input R' = topOverKinds"
    by (simp_all add: R'_def topColorRamp_def)
  have k: "isA topOverKinds Top" "\<not> isA topOverKinds Linear" "numBuckets (attrs topOverKinds) = Some 1"
    "etype (attrs topOverKinds) = INPUT_CATEGORY" "listElems (attrs topOverKinds) = None"
    "categories (attrs topOverKinds) = [Some ''bus'', Some ''car'', Some ''tram'']"
    by (simp_all add: topOverKinds_def isA_def kinds3_def)
  have c0: "getLegendCategoryValue exampleEnv topColorRamp (Some ''bus'') 0 [] =
      Inr (\<lparr> ename = Some ''bus'', values' = Some [ColorV red] \<rparr>, R')"
    by (simp add: getLegendCategoryValue_def v0 [folded R'_def] bindE_def i k getCategoryName_def valuesOf_def)
  have c1: "getLegendCategoryValue exampleEnv R' (Some ''car'') (Suc 0) [] =
      Inr (\<lparr> ename = Some ''Others'', values' = Some [ColorV blue] \<rparr>, R')"
    using v1 [folded R'_def]
    by (simp add: getLegendCategoryValue_def bindE_def i k valuesOf_def DEFAULT_OTHERS_NAME_def)
  have c2: "getLegendCategoryValue exampleEnv R' (Some ''tram'') 2 [] =
      Inr (\<lparr> ename = Some ''tram'', values' = None \<rparr>, R')"
    using v2 [folded R'_def]
    by (simp add: getLegendCategoryValue_def bindE_def i k getCategoryName_def valuesOf_def)
  have c2': "getLegendCategoryValue exampleEnv R' (Some ''tram'') (Suc (Suc 0)) [] =
      Inr (\<lparr> ename = Some ''tram'', values' = None \<rparr>, R')"
    using c2 by (simp add: numeral_2_eq_2)
  have "getLegend exampleEnv topColorRamp [] =
      Inr (Some [\<lparr> ename = Some ''bus'', values' = Some [ColorV red] \<rparr>,
                 \<lparr> ename = Some ''Others'', values' = Some [ColorV blue] \<rparr>], R')"
    by (simp add: getLegend_def getLeyendCategories_def i k c0 c1 c2' bindE_def)
  with c2 show ?thesis
    apply (intro exI [where x = t])
    unfolding R'_def [symmetric]
    by (intro conjI)
qed

text \<open>
  C7, as stated, fails. A colour ramp over a category property with a single category
  has \<open>maxKey = 0\<close>, so the position of category 0 is \<open>0 / 0 = NaN\<close> and its colour has
  \<open>NaN\<close> channels; \<open>getLegend\<close> returns the empty sequence, not an entry with
  \<open>values = null\<close>.
\<close>

theorem single_category_legend_counterexample:
  "categories (attrs (input (colorRamp [Some ''home'']))) = [Some ''home'']
   \<and> map_sum id fst (getLegend exampleEnv (colorRamp [Some ''home'']) []) = Inr (Some [])"
proof -
  define R where "R = colorRamp [Some ''home'']"
  from colorRamp_single_index obtain t where
    v: "getRampValueByIndex exampleEnv R 0 =
         Inr (None, R\<lparr> texCategories := Val (Some 1), maxKey := Num 0, cachedTexturePixels := Some t \<rparr>)"
    unfolding R_def by blast
  have i: "input R = kindInput [Some ''home'']" by (simp add: R_def colorRamp_def)
  have k: "\<not> isA (kindInput [Some ''home'']) Top" "\<not> isA (kindInput [Some ''home'']) Linear"
    "etype (attrs (kindInput [Some ''home''])) = INPUT_CATEGORY"
    "listElems (attrs (kindInput [Some ''home''])) = None"
    "categories (attrs (kindInput [Some ''home''])) = [Some ''home'']"
    by (simp_all add: kindInput_def isA_def)
  have c: "getLegendCategoryValue exampleEnv R (Some ''home'') 0 [] =
      Inr (\<lparr> ename = Some ''home'', values' = None \<rparr>,
           R\<lparr> texCategories := Val (Some 1), maxKey := Num 0, cachedTexturePixels := Some t \<rparr>)"
    by (simp add: getLegendCategoryValue_def v bindE_def i k getCategoryName_def valuesOf_def)
  have "getLegend exampleEnv R [] =
      Inr (Some [], R\<lparr> texCategories := Val (Some 1), maxKey := Num 0, cachedTexturePixels := Some t \<rparr>)"
    by (simp add: getLegend_def getLeyendCategories_def i k c bindE_def)
  then show ?thesis
    unfolding R_def [symmetric] by (simp add: i k)
qed

text \<open>
  C7, amended. For an input that is not a \<open>Linear\<close>, the sequence that \<open>getLegend\<close>
  returns is the sequence \<open>all\<close> of the entries built for the categories (or for the
  elements of the input's list), without the entries whose \<open>values\<close> is \<open>null\<close>; so every
  entry it returns carries one value, and that value has no \<open>NaN\<close> channel. For a colour
  ramp, \<open>_getRampValueByIndex\<close> returns \<open>null\<close> at index \<open>i\<close>, and the entry built at \<open>i\<close> has
  \<open>values = null\<close>, exactly when the colour looked up at the position of \<open>i\<close> has a \<open>NaN\<close>
  channel: such an entry is built with \<open>null\<close>, and then left out of the sequence, neither
  reported nor thrown on. A \<open>NaN\<close> never makes
  \<open>_getRampValueByIndex\<close> throw: it returns whenever the palette values and the table can
  be computed.
\<close>

theorem getLegend_leaves_out_null:
  assumes "getLegend env r opts = Inr (Some entries, r')" and "\<not> isA (input r) Linear"
  shows "(\<exists>all. (case listElems (attrs (input r)) of
                    None \<Rightarrow> mapLegend (\<lambda>q c i. getLegendCategoryValue env q c i opts) r
                              (categories (attrs (input r))) 0
                  | Some elems \<Rightarrow> mapLegend (getLegendItemValue env) r elems 0) = Inr (all, r')
              \<and> entries = filter (\<lambda>legend. values' legend \<noteq> None) all)
       \<and> (\<forall>e \<in> set entries. \<exists>v. values' e = Some [v] \<and> \<not> anyChannelNaN v)
       \<and> ((getLegendCategoryValue env q c i opts = Inr (e, q') \<or> getLegendItemValue env q c i = Inr (e, q'))
            \<and> ptype (palette q) \<noteq> IMAGE \<and> rtype q = RAMP_COLOR
          \<longrightarrow> (\<exists>tex. cachedTexturePixels q' = Some tex
                 \<and> (values' e = None \<longleftrightarrow>
                      anyChannelNaN (ColorV (getColorValue tex
                        (jdiv (jsub (Num (of_nat i)) (minKey q')) (jsub (maxKey q') (minKey q'))))))))
       \<and> (getRampValueByIndex env q i = Inr (w, q') \<and> ptype (palette q) \<noteq> IMAGE \<and> rtype q = RAMP_COLOR
          \<longrightarrow> (\<exists>tex. cachedTexturePixels q' = Some tex
                 \<and> (w = None \<longleftrightarrow>
                      anyChannelNaN (ColorV (getColorValue tex
                        (jdiv (jsub (Num (of_nat i)) (minKey q')) (jsub (maxKey q') (minKey q'))))))))
       \<and> (calcPaletteValues (palette q) = Inr p \<and> computeTextureIfNeeded env (q\<lparr> palette := p \<rparr>) = Inr (t, q1)
          \<longrightarrow> (\<exists>v q2. getRampValueByIndex env q i = Inr (v, q2)))"
proof (intro conjI ballI impI)
  from assms have cat: "etype (attrs (input r)) = INPUT_CATEGORY"
    unfolding getLegend_def by (simp split: if_splits)
  show "\<exists>all. (case listElems (attrs (input r)) of
                    None \<Rightarrow> mapLegend (\<lambda>q c i. getLegendCategoryValue env q c i opts) r
                              (categories (attrs (input r))) 0
                  | Some elems \<Rightarrow> mapLegend (getLegendItemValue env) r elems 0) = Inr (all, r')
              \<and> entries = filter (\<lambda>legend. values' legend \<noteq> None) all"
  proof (cases "listElems (attrs (input r))")
    case None
    with assms cat have "getLeyendCategories env r opts = Inr (entries, r')"
      unfolding getLegend_def bindE_def by (simp split: sum.splits prod.splits)
    then show ?thesis
      unfolding getLeyendCategories_def bindE_Inr_iff None by auto
  next
    case (Some elems)
    with assms cat have "getLegendList env r elems = Inr (entries, r')"
      unfolding getLegend_def bindE_def by (simp split: sum.splits prod.splits)
    then show ?thesis
      unfolding getLegendList_def bindE_Inr_iff Some by auto
  qed
next
  fix e assume e: "e \<in> set entries"
  from assms have cat: "etype (attrs (input r)) = INPUT_CATEGORY"
    unfolding getLegend_def by (simp split: if_splits)
  show "\<exists>v. values' e = Some [v] \<and> \<not> anyChannelNaN v"
  proof (cases "listElems (attrs (input r))")
    case None
    with assms cat have "getLeyendCategories env r opts = Inr (entries, r')"
      unfolding getLegend_def bindE_def by (simp split: sum.splits prod.splits)
    from getLeyendCategories_entries [OF this e] show ?thesis .
  next
    case (Some elems)
    with assms cat have "getLegendList env r elems = Inr (entries, r')"
      unfolding getLegend_def bindE_def by (simp split: sum.splits prod.splits)
    from getLegendList_entries [OF this e] show ?thesis .
  qed
next
  assume a: "(getLegendCategoryValue env q c i opts = Inr (e, q') \<or> getLegendItemValue env q c i = Inr (e, q'))
            \<and> ptype (palette q) \<noteq> IMAGE \<and> rtype q = RAMP_COLOR"
  then have im: "ptype (palette q) \<noteq> IMAGE" and co: "rtype q = RAMP_COLOR" by simp_all
  from a obtain v where run: "getRampValueByIndex env q i = Inr (v, q')"
    and e: "values' e = valuesOf v"
    by (auto simp: getLegendCategoryValue_def getLegendItemValue_def bindE_Inr_iff split: if_splits)
  from getRampValueByIndex_color [OF run im co] obtain tex where
    c: "cachedTexturePixels q' = Some tex"
    and v: "v = (let col = ColorV (getColorValue tex
                  (jdiv (jsub (Num (of_nat i)) (minKey q')) (jsub (maxKey q') (minKey q'))))
            in if anyChannelNaN col then None else Some col)"
    by blast
  have iff: "values' e = None \<longleftrightarrow>
          anyChannelNaN (ColorV (getColorValue tex
             (jdiv (jsub (Num (of_nat i)) (minKey q')) (jsub (maxKey q') (minKey q')))))"
    unfolding e v Let_def by (rule valuesOf_color)
  show "\<exists>tex. cachedTexturePixels q' = Some tex
                 \<and> (values' e = None \<longleftrightarrow>
                      anyChannelNaN (ColorV (getColorValue tex
                        (jdiv (jsub (Num (of_nat i)) (minKey q')) (jsub (maxKey q') (minKey q'))))))"
    by (rule exI [where x = tex]) (rule conjI [OF c iff])
next
  assume a: "getRampValueByIndex env q i = Inr (w, q') \<and> ptype (palette q) \<noteq> IMAGE \<and> rtype q = RAMP_COLOR"
  then have run: "getRampValueByIndex env q i = Inr (w, q')" and im: "ptype (palette q) \<noteq> IMAGE"
    and co: "rtype q = RAMP_COLOR" by simp_all
  from getRampValueByIndex_color [OF run im co] obtain tex where
    c: "cachedTexturePixels q' = Some tex"
    and w: "w = (let col = ColorV (getColorValue tex
                  (jdiv (jsub (Num (of_nat i)) (minKey q')) (jsub (maxKey q') (minKey q'))))
            in if anyChannelNaN col then None else Some col)"
    by blast
  have iff: "w = None \<longleftrightarrow>
          anyChannelNaN (ColorV (getColorValue tex
             (jdiv (jsub (Num (of_nat i)) (minKey q')) (jsub (maxKey q') (minKey q')))))"
    unfolding w Let_def by simp
  show "\<exists>tex. cachedTexturePixels q' = Some tex
                 \<and> (w = None \<longleftrightarrow>
                      anyChannelNaN (ColorV (getColorValue tex
                        (jdiv (jsub (Num (of_nat i)) (minKey q')) (jsub (maxKey q') (minKey q'))))))"
    by (rule exI [where x = tex]) (rule conjI [OF c iff])
next
  assume "calcPaletteValues (palette q) = Inr p \<and> computeTextureIfNeeded env (q\<lparr> palette := p \<rparr>) = Inr (t, q1)"
  then show "\<exists>v q2. getRampValueByIndex env q i = Inr (v, q2)"
    by (simp add: getRampValueByIndex_def bindE_def Let_def)
qed

text \<open>
  The legend of \<open>ramp(top($kind, 1), [red, blue])\<close> over the three categories of \<open>$kind\<close>:
  the bucket, the others, and no entry for the third category, whose position 2 lies
  beyond the table.
\<close>

theorem getLegend_leaves_out_null_witness:
  "map_sum id fst (getLegend exampleEnv topColorRamp []) =
     Inr (Some [\<lparr> ename = Some ''bus'', values' = Some [ColorV red] \<rparr>,
                \<lparr> ename = Some ''Others'', values' = Some [ColorV blue] \<rparr>])
   \<and> categories (attrs (input topColorRamp)) = [Some ''bus'', Some ''car'', Some ''tram'']
   \<and> \<not> anyChannelNaN (ColorV red) \<and> \<not> anyChannelNaN (ColorV blue)
   \<and> (\<exists>q q' tex. getLegendCategoryValue exampleEnv q (Some ''tram'') 2 []
                     = Inr (\<lparr> ename = Some ''tram'', values' = None \<rparr>, q')
          \<and> cachedTexturePixels q' = Some tex \<and> minKey q' = Num 0 \<and> maxKey q' = Num 1
          \<and> anyChannelNaN (ColorV (getColorValue tex (Num 2))))"
proof -
  from topColorRamp_legend obtain t where
    run: "getLegend exampleEnv topColorRamp [] =
         Inr (Some [\<lparr> ename = Some ''bus'', values' = Some [ColorV red] \<rparr>,
                    \<lparr> ename = Some ''Others'', values' = Some [ColorV blue] \<rparr>],
              topColorRamp\<lparr> texCategories := Val (Some 2), maxKey := Num 1,
                            cachedTexturePixels := Some t \<rparr>)"
    and c2: "getLegendCategoryValue exampleEnv
         (topColorRamp\<lparr> texCategories := Val (Some 2), maxKey := Num 1, cachedTexturePixels := Some t \<rparr>)
         (Some ''tram'') 2 []
       = Inr (\<lparr> ename = Some ''tram'', values' = None \<rparr>,
              topColorRamp\<lparr> texCategories := Val (Some 2), maxKey := Num 1,
                            cachedTexturePixels := Some t \<rparr>)"
    by blast
  define R' where "R' = topColorRamp\<lparr> texCategories := Val (Some 2), maxKey := Num 1,
                            cachedTexturePixels := Some t \<rparr>"
  have nl: "\<not> isA (input topColorRamp) Linear"
    by (simp add: topColorRamp_def topOverKinds_def isA_def)
  have f: "ptype (palette R') \<noteq> IMAGE" "rtype R' = RAMP_COLOR" "minKey R' = Num 0" "maxKey R' = Num 1"
    "cachedTexturePixels R' = Some t"
    by (simp_all add: R'_def topColorRamp_def colorRamp_def colorPalette_def)
  note th = getLegend_leaves_out_null [OF run nl, where q = R' and c = "Some ''tram''" and i = 2
      and e = "\<lparr> ename = Some ''tram'', values' = None \<rparr>" and q' = R']
  from th [THEN conjunct2, THEN conjunct1]
  have fin: "\<not> anyChannelNaN (ColorV red) \<and> \<not> anyChannelNaN (ColorV blue)" by simp
  from th [THEN conjunct2, THEN conjunct2, THEN conjunct1] c2 [folded R'_def] f
  have nan: "anyChannelNaN (ColorV (getColorValue t (Num 2)))"
    by (simp add: jsub_def)
  have "\<exists>q q' tex. getLegendCategoryValue exampleEnv q (Some ''tram'') 2 []
                     = Inr (\<lparr> ename = Some ''tram'', values' = None \<rparr>, q')
          \<and> cachedTexturePixels q' = Some tex \<and> minKey q' = Num 0 \<and> maxKey q' = Num 1
          \<and> anyChannelNaN (ColorV (getColorValue tex (Num 2)))"
    apply (intro exI [where x = R'] exI [where x = t])
    using c2 [folded R'_def] f nan by simp
  moreover have "categories (attrs (input topColorRamp)) = [Some ''bus'', Some ''car'', Some ''tram'']"
    by (simp add: topColorRamp_def topOverKinds_def kinds3_def)
  ultimately show ?thesis using run fin by simp
qed

subsection \<open>The label of the others entry\<close>

lemma getLegendCategoryValue_other_key:
  "getLegendCategoryValue env r c i ((''othersLabel'', s) # opts) = getLegendCategoryValue env r c i opts"
proof -
  have k: "map_of ((''othersLabel'', s) # opts) ''defaultOthers'' = map_of opts ''defaultOthers''"
    by simp
  show ?thesis unfolding getLegendCategoryValue_def k by (rule refl)
qed

lemma getLegendCategoryValue_name:
  assumes "getLegendCategoryValue env r c i opts = Inr (e, r')"
  shows "ename e = Some (if isA (input r) Top \<and> numBuckets (attrs (input r)) = Some i
                        then (case map_of opts ''defaultOthers'' of
                                None \<Rightarrow> ''Others''
                              | Some s \<Rightarrow> if s = [] then ''Others'' else s)
                        else (case c of
                                None \<Rightarrow> ''Others''
                              | Some s \<Rightarrow> if s = [] then ''Others'' else s))
       \<and> input r' = input r"
proof -
  from assms obtain v where run: "getRampValueByIndex env r i = Inr (v, r')"
    and e: "ename e = Some (if isA (input r') Top \<and> numBuckets (attrs (input r')) = Some i
                        then (case map_of opts ''defaultOthers'' of
                                None \<Rightarrow> DEFAULT_OTHERS_NAME
                              | Some s \<Rightarrow> if s = [] then DEFAULT_OTHERS_NAME else s)
                        else getCategoryName c)"
    by (auto simp: getLegendCategoryValue_def bindE_Inr_iff split: if_splits)
  from getRampValueByIndex_result [OF run] have i: "input r' = input r" by simp
  with e show ?thesis
    unfolding getCategoryName_def DEFAULT_OTHERS_NAME_def by simp
qed

lemma getLegendItemValue_name:
  assumes "getLegendItemValue env r c i = Inr (e, r')"
  shows "ename e = Some (case c of None \<Rightarrow> ''Others'' | Some s \<Rightarrow> if s = [] then ''Others'' else s)
       \<and> input r' = input r"
proof -
  from assms obtain v where run: "getRampValueByIndex env r i = Inr (v, r')"
    and e: "ename e = Some (getCategoryName c)"
    by (auto simp: getLegendItemValue_def bindE_Inr_iff)
  from getRampValueByIndex_result [OF run] have "input r' = input r" by simp
  with e show ?thesis
    unfolding getCategoryName_def DEFAULT_OTHERS_NAME_def by simp
qed

text \<open>
  C6, as stated, fails: under the options \<open>{othersLabel: "Rest"}\<close> the others entry of
  \<open>ramp(top($kind, 1), imageList(...))\<close> is still named \<open>"Others"\<close>.
\<close>

theorem others_label_counterexample:
  "getLegend exampleEnv imageRamp [(''othersLabel'', ''Rest'')] =
     Inr (Some [\<lparr> ename = Some ''bus'', values' = Some [UrlV ''bus.svg''] \<rparr>,
                \<lparr> ename = Some ''Others'', values' = Some [UrlV ''any.svg''] \<rparr>], imageRamp)"
  using imageRamp_legend [of "[(''othersLabel'', ''Rest'')]"]
  by (simp add: DEFAULT_OTHERS_NAME_def)

text \<open>
  C6, amended. When the input is a category input that is no \<open>Linear\<close> and carries no
  \<open>list\<close>, \<open>getLegend\<close> builds one entry for each category of \<open>getCategories()\<close> and returns
  those whose \<open>values\<close> is not \<open>null\<close>. The entry of category \<open>i\<close> is named by the option
  \<open>defaultOthers\<close> when the input is a \<open>Top\<close> and \<open>i\<close> is its \<open>numBuckets\<close>: the supplied
  string when it is not empty, \<open>"Others"\<close> when the option is absent or empty. Every other
  entry is named after its category, \<open>"Others"\<close> when that name is missing or empty. When
  the input carries a \<open>list\<close>, the entries are built for the elements of the list and
  named after them, \<open>"Others"\<close> when the name is missing or empty; then, as for a \<open>Linear\<close>
  input, no option is read at all. The option \<open>othersLabel\<close> is never read.
\<close>

theorem others_label_option:
  "(getLegend env r opts = Inr (Some entries, r') \<and> \<not> isA (input r) Linear
      \<and> listElems (attrs (input r)) = None
    \<longrightarrow> (\<exists>all. mapLegend (\<lambda>q c i. getLegendCategoryValue env q c i opts) r
                     (categories (attrs (input r))) 0 = Inr (all, r')
            \<and> entries = filter (\<lambda>legend. values' legend \<noteq> None) all
            \<and> length all = length (categories (attrs (input r)))
            \<and> (\<forall>i < length all.
                 ename (all ! i) =
                   Some (if isA (input r) Top \<and> numBuckets (attrs (input r)) = Some i
                         then (case map_of opts ''defaultOthers'' of
                                 None \<Rightarrow> ''Others''
                               | Some s \<Rightarrow> if s = [] then ''Others'' else s)
                         else (case categories (attrs (input r)) ! i of
                                 None \<Rightarrow> ''Others''
                               | Some s \<Rightarrow> if s = [] then ''Others'' else s)))))
   \<and> (getLegend env r opts = Inr (Some entries, r') \<and> \<not> isA (input r) Linear
        \<and> listElems (attrs (input r)) = Some elems
      \<longrightarrow> (\<exists>all. mapLegend (getLegendItemValue env) r elems 0 = Inr (all, r')
              \<and> entries = filter (\<lambda>legend. values' legend \<noteq> None) all
              \<and> length all = length elems
              \<and> (\<forall>i < length all.
                   ename (all ! i) =
                     Some (case elems ! i of
                             None \<Rightarrow> ''Others''
                           | Some s \<Rightarrow> if s = [] then ''Others'' else s))))
   \<and> (isA (input r) Linear \<or> etype (attrs (input r)) \<noteq> INPUT_CATEGORY
        \<or> listElems (attrs (input r)) \<noteq> None
      \<longrightarrow> getLegend env r opts = getLegend env r opts')
   \<and> getLegend env r ((''othersLabel'', s') # opts) = getLegend env r opts"
proof (intro conjI impI)
  assume a: "getLegend env r opts = Inr (Some entries, r') \<and> \<not> isA (input r) Linear
      \<and> listElems (attrs (input r)) = None"
  then obtain all where
    m: "mapLegend (\<lambda>q c i. getLegendCategoryValue env q c i opts) r
          (categories (attrs (input r))) 0 = Inr (all, r')"
    and f: "entries = filter (\<lambda>legend. values' legend \<noteq> None) all"
    using getLegend_categories_path [of env r opts entries r'] by blast
  have n: "length all = length (categories (attrs (input r)))
       \<and> (\<forall>j < length (categories (attrs (input r))).
            ename (all ! j) =
              Some (if isA (input r) Top \<and> numBuckets (attrs (input r)) = Some (0 + j)
                    then (case map_of opts ''defaultOthers'' of
                            None \<Rightarrow> ''Others''
                          | Some s \<Rightarrow> if s = [] then ''Others'' else s)
                    else (case categories (attrs (input r)) ! j of
                            None \<Rightarrow> ''Others''
                          | Some s \<Rightarrow> if s = [] then ''Others'' else s)))"
    by (rule mapLegend_nth [where I = "input r"
          and f = "\<lambda>q c i. getLegendCategoryValue env q c i opts"
          and P = "\<lambda>i c e. ename e =
              Some (if isA (input r) Top \<and> numBuckets (attrs (input r)) = Some i
                    then (case map_of opts ''defaultOthers'' of
                            None \<Rightarrow> ''Others''
                          | Some s \<Rightarrow> if s = [] then ''Others'' else s)
                    else (case c of
                            None \<Rightarrow> ''Others''
                          | Some s \<Rightarrow> if s = [] then ''Others'' else s))", OF _ refl m])
       (use getLegendCategoryValue_name in fastforce)
  show "\<exists>all. mapLegend (\<lambda>q c i. getLegendCategoryValue env q c i opts) r
                     (categories (attrs (input r))) 0 = Inr (all, r')
            \<and> entries = filter (\<lambda>legend. values' legend \<noteq> None) all
            \<and> length all = length (categories (attrs (input r)))
            \<and> (\<forall>i < length all.
                 ename (all ! i) =
                   Some (if isA (input r) Top \<and> numBuckets (attrs (input r)) = Some i
                         then (case map_of opts ''defaultOthers'' of
                                 None \<Rightarrow> ''Others''
                               | Some s \<Rightarrow> if s = [] then ''Others'' else s)
                         else (case categories (attrs (input r)) ! i of
                                 None \<Rightarrow> ''Others''
                               | Some s \<Rightarrow> if s = [] then ''Others'' else s)))"
    apply (rule exI [where x = all])
    using m f n by simp
next
  assume a: "getLegend env r opts = Inr (Some entries, r') \<and> \<not> isA (input r) Linear
        \<and> listElems (attrs (input r)) = Some elems"
  then obtain all where
    m: "mapLegend (getLegendItemValue env) r elems 0 = Inr (all, r')"
    and f: "entries = filter (\<lambda>legend. values' legend \<noteq> None) all"
    using getLegend_list_path [of env r opts entries r' elems] by blast
  have n: "length all = length elems
       \<and> (\<forall>j < length elems.
            ename (all ! j) =
              Some (case elems ! j of
                      None \<Rightarrow> ''Others''
                    | Some s \<Rightarrow> if s = [] then ''Others'' else s))"
    by (rule mapLegend_nth [where I = "input r" and f = "getLegendItemValue env"
          and P = "\<lambda>i c e. ename e =
              Some (case c of None \<Rightarrow> ''Others'' | Some s \<Rightarrow> if s = [] then ''Others'' else s)",
          OF _ refl m])
       (use getLegendItemValue_name in fastforce)
  show "\<exists>all. mapLegend (getLegendItemValue env) r elems 0 = Inr (all, r')
              \<and> entries = filter (\<lambda>legend. values' legend \<noteq> None) all
              \<and> length all = length elems
              \<and> (\<forall>i < length all.
                   ename (all ! i) =
                     Some (case elems ! i of
                             None \<Rightarrow> ''Others''
                           | Some s \<Rightarrow> if s = [] then ''Others'' else s))"
    apply (rule exI [where x = all])
    using m f n by simp
next
  assume "isA (input r) Linear \<or> etype (attrs (input r)) \<noteq> INPUT_CATEGORY
        \<or> listElems (attrs (input r)) \<noteq> None"
  then show "getLegend env r opts = getLegend env r opts'"
    by (auto simp: getLegend_def split: option.splits)
next
  show "getLegend env r ((''othersLabel'', s') # opts) = getLegend env r opts"
    unfolding getLegend_def getLeyendCategories_def getLegendCategoryValue_other_key by (rule refl)
qed

text \<open>
  The legend of \<open>ramp(top($kind, 1), imageList(...))\<close> under \<open>{defaultOthers: "Rest"}\<close>,
  without and with a \<open>list\<close> on the input.
\<close>

theorem others_label_option_witness:
  "getLegend exampleEnv imageRamp [(''defaultOthers'', ''Rest'')] =
     Inr (Some [\<lparr> ename = Some ''bus'', values' = Some [UrlV ''bus.svg''] \<rparr>,
                \<lparr> ename = Some ''Rest'', values' = Some [UrlV ''any.svg''] \<rparr>], imageRamp)
   \<and> (\<exists>all. mapLegend (\<lambda>q c i. getLegendCategoryValue exampleEnv q c i [(''defaultOthers'', ''Rest'')])
               imageRamp [Some ''bus'', None] 0 = Inr (all, imageRamp)
          \<and> length all = 2 \<and> ename (all ! 0) = Some ''bus'' \<and> ename (all ! 1) = Some ''Rest'')
   \<and> getLegend exampleEnv listedRamp [(''defaultOthers'', ''Rest'')] =
       Inr (Some [\<lparr> ename = Some ''bus'', values' = Some [UrlV ''bus.svg''] \<rparr>,
                  \<lparr> ename = Some ''Others'', values' = Some [UrlV ''any.svg''] \<rparr>], listedRamp)
   \<and> getLegend exampleEnv imageRamp [(''othersLabel'', ''All the rest''), (''defaultOthers'', ''Rest'')]
       = getLegend exampleEnv imageRamp [(''defaultOthers'', ''Rest'')]"
proof -
  have run: "getLegend exampleEnv imageRamp [(''defaultOthers'', ''Rest'')] =
     Inr (Some [\<lparr> ename = Some ''bus'', values' = Some [UrlV ''bus.svg''] \<rparr>,
                \<lparr> ename = Some ''Rest'', values' = Some [UrlV ''any.svg''] \<rparr>], imageRamp)"
    using imageRamp_legend [of "[(''defaultOthers'', ''Rest'')]"] by simp
  have f: "\<not> isA (input imageRamp) Linear" "listElems (attrs (input imageRamp)) = None"
    "categories (attrs (input imageRamp)) = [Some ''bus'', None]"
    "isA (input imageRamp) Top" "numBuckets (attrs (input imageRamp)) = Some 1"
    by (simp_all add: imageRamp_def topInput_def isA_def)
  note th1 = others_label_option [of exampleEnv imageRamp "[(''defaultOthers'', ''Rest'')]"
      "[\<lparr> ename = Some ''bus'', values' = Some [UrlV ''bus.svg''] \<rparr>,
        \<lparr> ename = Some ''Rest'', values' = Some [UrlV ''any.svg''] \<rparr>]" imageRamp]
  from th1 [THEN conjunct1] run f(1,2)
  obtain all where
    m: "mapLegend (\<lambda>q c i. getLegendCategoryValue exampleEnv q c i [(''defaultOthers'', ''Rest'')])
               imageRamp (categories (attrs (input imageRamp))) 0 = Inr (all, imageRamp)"
    and l: "length all = length (categories (attrs (input imageRamp)))"
    and n: "\<forall>i < length all.
                 ename (all ! i) =
                   Some (if isA (input imageRamp) Top \<and> numBuckets (attrs (input imageRamp)) = Some i
                         then (case map_of [(''defaultOthers'', ''Rest'')] ''defaultOthers'' of
                                 None \<Rightarrow> ''Others''
                               | Some s \<Rightarrow> if s = [] then ''Others'' else s)
                         else (case categories (attrs (input imageRamp)) ! i of
                                 None \<Rightarrow> ''Others''
                               | Some s \<Rightarrow> if s = [] then ''Others'' else s))"
    by blast
  from l have l2: "length all = 2" by (simp add: f)
  from n l2 have n0: "ename (all ! 0) = Some ''bus''" by (simp add: f)
  have "(1::nat) < length all" using l2 by simp
  with n have "ename (all ! 1) =
                   Some (if isA (input imageRamp) Top \<and> numBuckets (attrs (input imageRamp)) = Some 1
                         then (case map_of [(''defaultOthers'', ''Rest'')] ''defaultOthers'' of
                                 None \<Rightarrow> ''Others''
                               | Some s \<Rightarrow> if s = [] then ''Others'' else s)
                         else (case categories (attrs (input imageRamp)) ! 1 of
                                 None \<Rightarrow> ''Others''
                               | Some s \<Rightarrow> if s = [] then ''Others'' else s))"
    by blast
  then have n1: "ename (all ! 1) = Some ''Rest''" by (simp add: f)
  have names: "\<exists>all. mapLegend (\<lambda>q c i. getLegendCategoryValue exampleEnv q c i [(''defaultOthers'', ''Rest'')])
               imageRamp [Some ''bus'', None] 0 = Inr (all, imageRamp)
          \<and> length all = 2 \<and> ename (all ! 0) = Some ''bus'' \<and> ename (all ! 1) = Some ''Rest''"
    apply (rule exI [where x = all])
    using m l2 n0 n1 by (simp add: f)
  have li: "listElems (attrs (input listedRamp)) \<noteq> None"
    by (simp add: listedRamp_def listedInput_def)
  from others_label_option [of exampleEnv listedRamp "[(''defaultOthers'', ''Rest'')]" _ _ _ "[]",
      THEN conjunct2, THEN conjunct2, THEN conjunct1] li
  have "getLegend exampleEnv listedRamp [(''defaultOthers'', ''Rest'')] = getLegend exampleEnv listedRamp []"
    by blast
  then have listed: "getLegend exampleEnv listedRamp [(''defaultOthers'', ''Rest'')] =
       Inr (Some [\<lparr> ename = Some ''bus'', values' = Some [UrlV ''bus.svg''] \<rparr>,
                  \<lparr> ename = Some ''Others'', values' = Some [UrlV ''any.svg''] \<rparr>], listedRamp)"
    by (simp only: listedRamp_legend)
  have ol: "getLegend exampleEnv imageRamp [(''othersLabel'', ''All the rest''), (''defaultOthers'', ''Rest'')]
       = getLegend exampleEnv imageRamp [(''defaultOthers'', ''Rest'')]"
    by (rule th1 [THEN conjunct2, THEN conjunct2, THEN conjunct2])
  show ?thesis
    by (intro conjI) (rule run, rule names, rule listed, rule ol)
qed

subsection \<open>Palettes that are not constant\<close>



subsection \<open>Metadata binding\<close>

lemma bindExpr_class:
  assumes "bindExpr env md e = Inr e'"
  shows "cls (attrs e') = cls (attrs e)"
  using assms by (auto simp: bindExpr_def bindE_Inr_iff)

text \<open>
  C4. If, once \<open>super._bindMetadata\<close> has bound the children, the input of the ramp is a
  property reference of numeric type, then a successful \<open>_bindMetadata\<close> leaves as input what
  binding \<open>new Linear(input)\<close> to the same metadata gives: an instance of \<open>Linear\<close> built
  around that property reference. After every successful \<open>_bindMetadata\<close> the input is not
  a bare numeric property reference.
\<close>

theorem bindMetadata_wraps_numeric_property:
  assumes "Ramp_bindMetadata env md r = Inr r'"
  shows "\<not> (isA (input r') Property \<and> etype (attrs (input r')) = INPUT_NUMBER)
       \<and> (\<forall>r1. super_bindMetadata env md r = Inr r1 \<and> isA (input r1) Property
                 \<and> etype (attrs (input r1)) = INPUT_NUMBER
             \<longrightarrow> isA (input r') Linear
                 \<and> bindExpr env md (Linear_new env (input r1)) = Inr (input r')
                 \<and> inputOf (Linear_new env (input r1)) = Some (input r1))"
proof -
  define wrap :: "ramp \<Rightarrow> error + ramp" where "wrap r1 =
      (if isA (input r1) Property \<and> etype (attrs (input r1)) = INPUT_NUMBER
       then bindE (bindExpr env md (Linear_new env (input r1))) (\<lambda>i. Inr (r1\<lparr> input := i \<rparr>))
       else Inr r1)" for r1
  define finish :: "ramp \<Rightarrow> error + ramp" where "finish r2 =
      (case checkType env [INPUT_NUMBER, INPUT_CATEGORY] (input r2) of
         Some e \<Rightarrow> Inl e
       | None \<Rightarrow>
           (case (if ptype (palette r2) = IMAGE
                  then (case checkType env [INPUT_CATEGORY] (input r2) of
                          Some e \<Rightarrow> Some e
                        | None \<Rightarrow> checkInstance env (palette r2))
                  else None) of
              Some e \<Rightarrow> Inl e
            | None \<Rightarrow> Inr (r2\<lparr> metadataOf := Some md, texCategories := Null,
                               GLtexCategories := Null \<rparr>)))" for r2
  have "Ramp_bindMetadata env md r = bindE (super_bindMetadata env md r) (\<lambda>r1. bindE (wrap r1) finish)"
    unfolding Ramp_bindMetadata_def wrap_def finish_def by (rule refl)
  with assms obtain r1 r2 where
    s: "super_bindMetadata env md r = Inr r1" and w0: "wrap r1 = Inr r2" and f: "finish r2 = Inr r'"
    by (auto simp: bindE_Inr_iff)
  from f have i: "input r' = input r2"
    unfolding finish_def by (auto split: option.splits if_splits)
  from w0 have w: "(if isA (input r1) Property \<and> etype (attrs (input r1)) = INPUT_NUMBER
            then bindE (bindExpr env md (Linear_new env (input r1))) (\<lambda>i. Inr (r1\<lparr> input := i \<rparr>))
            else Inr r1) = Inr r2"
    unfolding wrap_def .
  show ?thesis
  proof (cases "isA (input r1) Property \<and> etype (attrs (input r1)) = INPUT_NUMBER")
    case True
    with w obtain j where j: "bindExpr env md (Linear_new env (input r1)) = Inr j"
      and r2: "r2 = r1\<lparr> input := j \<rparr>"
      by (auto simp: bindE_Inr_iff)
    from bindExpr_class [OF j] have "cls (attrs j) = Linear"
      by (simp add: Linear_new_def)
    with i r2 j s show ?thesis by (simp add: isA_def Linear_new_def)
  next
    case False
    with w have "r2 = r1" by simp
    with i False s show ?thesis by auto
  qed
qed

lemma propertyRamp_bound:
  "Ramp_bindMetadata exampleEnv exampleMetadata propertyRamp =
     Inr (propertyRamp\<lparr>
       input := Expr ((linearOver (Expr ((attrs propertyX)\<lparr> boundTo := Some exampleMetadata \<rparr>) None))
                        \<lparr> boundTo := Some exampleMetadata \<rparr>)
                     (Some (Expr ((attrs propertyX)\<lparr> boundTo := Some exampleMetadata \<rparr>) None)),
       metadataOf := Some exampleMetadata, texCategories := Null, GLtexCategories := Null \<rparr>)"
proof -
  define pB where "pB = Expr ((attrs propertyX)\<lparr> boundTo := Some exampleMetadata \<rparr>) None"
  have b1: "bindExpr exampleEnv exampleMetadata propertyX = Inr pB"
    by (simp add: bindExpr_def exampleEnv_def bindTo_def bindE_def pB_def propertyX_def)
  have bp: "bindPalette exampleEnv exampleMetadata (palette propertyRamp) = Inr (palette propertyRamp)"
    by (simp add: exampleEnv_def)
  have i: "input propertyRamp = propertyX" by (simp add: propertyRamp_def)
  have s: "super_bindMetadata exampleEnv exampleMetadata propertyRamp = Inr (propertyRamp\<lparr> input := pB \<rparr>)"
    by (simp add: super_bindMetadata_def i b1 bp bindE_def)
  have p: "isA pB Property" "etype (attrs pB) = INPUT_NUMBER"
    by (simp_all add: pB_def propertyX_def isA_def)
  have b2: "bindExpr exampleEnv exampleMetadata (Linear_new exampleEnv pB) =
      Inr (Expr ((linearOver pB)\<lparr> boundTo := Some exampleMetadata \<rparr>) (Some pB))"
    by (simp add: bindExpr_def Linear_new_def exampleEnv_def bindTo_def bindE_def linearOver_def)
  have ck: "checkType exampleEnv [INPUT_NUMBER, INPUT_CATEGORY]
              (Expr ((linearOver pB)\<lparr> boundTo := Some exampleMetadata \<rparr>) (Some pB)) = None"
    by (simp add: exampleEnv_def typeAmong_def linearOver_def)
  have pt: "ptype (palette propertyRamp) \<noteq> IMAGE"
    by (simp add: propertyRamp_def sizeRamp_def sizePalette_def)
  show ?thesis
    unfolding pB_def [symmetric]
    by (simp add: Ramp_bindMetadata_def s p b2 ck pt bindE_def)
qed

text \<open>Binding \<open>ramp($x, [1.5, 10])\<close> to a dataset with the numeric property \<open>x\<close>.\<close>

theorem bindMetadata_wraps_numeric_property_witness:
  "isA (input propertyRamp) Property \<and> etype (attrs (input propertyRamp)) = INPUT_NUMBER
   \<and> (\<exists>r'. Ramp_bindMetadata exampleEnv exampleMetadata propertyRamp = Inr r'
          \<and> isA (input r') Linear
          \<and> \<not> (isA (input r') Property \<and> etype (attrs (input r')) = INPUT_NUMBER))"
proof -
  define R where "R = propertyRamp\<lparr>
       input := Expr ((linearOver (Expr ((attrs propertyX)\<lparr> boundTo := Some exampleMetadata \<rparr>) None))
                        \<lparr> boundTo := Some exampleMetadata \<rparr>)
                     (Some (Expr ((attrs propertyX)\<lparr> boundTo := Some exampleMetadata \<rparr>) None)),
       metadataOf := Some exampleMetadata, texCategories := Null, GLtexCategories := Null \<rparr>"
  have run: "Ramp_bindMetadata exampleEnv exampleMetadata propertyRamp = Inr R"
    unfolding R_def by (rule propertyRamp_bound)
  have l: "isA (input R) Linear" by (simp add: R_def isA_def linearOver_def)
  from bindMetadata_wraps_numeric_property [OF run, THEN conjunct1]
  have n: "\<not> (isA (input R) Property \<and> etype (attrs (input R)) = INPUT_NUMBER)" .
  have p: "isA (input propertyRamp) Property \<and> etype (attrs (input propertyRamp)) = INPUT_NUMBER"
    by (simp add: propertyRamp_def propertyX_def isA_def)
  have "\<exists>r'. Ramp_bindMetadata exampleEnv exampleMetadata propertyRamp = Inr r'
          \<and> isA (input r') Linear
          \<and> \<not> (isA (input r') Property \<and> etype (attrs (input r')) = INPUT_NUMBER)"
    by (rule exI [where x = R]) (use run l n in blast)
  with p show ?thesis by blast
qed

subsection \<open>The cached table\<close>

lemma bindMetadata_keeps_cached_table:
  assumes "Ramp_bindMetadata env md r = Inr r'"
  shows "cachedTexturePixels r' = cachedTexturePixels r \<and> texCategories r' = Null"
proof -
  define wrap :: "ramp \<Rightarrow> error + ramp" where "wrap r1 =
      (if isA (input r1) Property \<and> etype (attrs (input r1)) = INPUT_NUMBER
       then bindE (bindExpr env md (Linear_new env (input r1))) (\<lambda>i. Inr (r1\<lparr> input := i \<rparr>))
       else Inr r1)" for r1
  define finish :: "ramp \<Rightarrow> error + ramp" where "finish r2 =
      (case checkType env [INPUT_NUMBER, INPUT_CATEGORY] (input r2) of
         Some e \<Rightarrow> Inl e
       | None \<Rightarrow>
           (case (if ptype (palette r2) = IMAGE
                  then (case checkType env [INPUT_CATEGORY] (input r2) of
                          Some e \<Rightarrow> Some e
                        | None \<Rightarrow> checkInstance env (palette r2))
                  else None) of
              Some e \<Rightarrow> Inl e
            | None \<Rightarrow> Inr (r2\<lparr> metadataOf := Some md, texCategories := Null,
                               GLtexCategories := Null \<rparr>)))" for r2
  have "Ramp_bindMetadata env md r = bindE (super_bindMetadata env md r) (\<lambda>r1. bindE (wrap r1) finish)"
    unfolding Ramp_bindMetadata_def wrap_def finish_def by (rule refl)
  with assms obtain r1 r2 where
    s: "super_bindMetadata env md r = Inr r1" and w: "wrap r1 = Inr r2" and f: "finish r2 = Inr r'"
    by (auto simp: bindE_Inr_iff)
  from s have "cachedTexturePixels r1 = cachedTexturePixels r"
    by (auto simp: super_bindMetadata_def bindE_Inr_iff)
  moreover from w have "cachedTexturePixels r2 = cachedTexturePixels r1"
    unfolding wrap_def by (auto simp: bindE_Inr_iff split: if_splits)
  moreover from f have "cachedTexturePixels r' = cachedTexturePixels r2 \<and> texCategories r' = Null"
    unfolding finish_def by (auto split: option.splits if_splits)
  ultimately show ?thesis by simp
qed

lemma kindRamp_fields:
  "rtype (kindRamp names) = RAMP_NUMBER"
  "floats (palette (kindRamp names)) = Some [N (Num (3 / 2)), N (Num 10)]"
  "cachedTexturePixels (kindRamp names) = None"
  "calcPaletteValues (palette (kindRamp names)) = Inr (palette (kindRamp names))"
  "input (kindRamp names) = kindInput names"
  "minKey (kindRamp names) = Num 0"
  by (simp_all add: kindRamp_def sizeRamp_def sizePalette_def calcPaletteValues_def)

lemma kindInput_fields:
  "etype (attrs (kindInput names)) = INPUT_CATEGORY"
  "numCategories (attrs (kindInput names)) = Some (length names)"
  "numCategoriesMinus1 (kindInput names) = Num (of_nat (length names) - 1)"
  "evalIn (attrs (kindInput names)) [(''kind'', v)] = Inr v"
  by (simp_all add: kindInput_def numCategoriesMinus1_def readProperty_def)

lemma kindRamp_table:
  "computeTextureIfNeeded exampleEnv (kindRamp names) = Inr (sizeTable, kindRampBuilt names)"
proof -
  have "cachedTexturePixels (kindRamp names) = None \<or> pAnimated (palette (kindRamp names))"
    by (simp add: kindRamp_fields)
  from numericTable_built [OF kindRamp_fields(1,2) this, of exampleEnv]
  show ?thesis
    by (simp add: kindRamp_fields kindInput_fields kindRampBuilt_def sizeTable_def)
qed

lemma staleRamp_fields:
  "cachedTexturePixels staleRamp = Some sizeTable"
  "\<not> pAnimated (palette staleRamp)"
  "calcPaletteValues (palette staleRamp) = Inr (palette staleRamp)"
  "input staleRamp = kindInput kinds5"
  "minKey staleRamp = Num 0" "maxKey staleRamp = Num 2" "rtype staleRamp = RAMP_NUMBER"
  "texCategories staleRamp = Val (Some 3)"
  by (simp_all add: staleRamp_def kindRampBuilt_def kindRamp_def sizeRamp_def sizePalette_def
      calcPaletteValues_def kinds3_def)

lemma staleRamp_table:
  "computeTextureIfNeeded exampleEnv staleRamp = Inr (sizeTable, staleRamp)"
  by (simp add: computeTextureIfNeeded_def staleRamp_fields)

text \<open>
  C3. The claim: the cached table is rebuilt exactly when the palette is animated or the
  category count of the input has changed since the table was built. The code rebuilds
  on an animated palette only. The ramp \<open>ramp($kind, [1.5, 10])\<close> builds its table while
  \<open>$kind\<close> has three categories; once \<open>$kind\<close> has five, \<open>_computeTextureIfNeeded\<close> still
  returns the cached table and leaves \<open>_texCategories\<close> at 3 and \<open>maxKey\<close> at 2, so the
  ramp maps category 2 to 10, where the same ramp built over five categories maps it
  to 6.
\<close>

theorem cached_table_outlives_category_count:
  "computeTextureIfNeeded exampleEnv (kindRamp kinds3) = Inr (sizeTable, kindRampBuilt kinds3)
   \<and> staleRamp = (kindRampBuilt kinds3)\<lparr> input := kindInput kinds5 \<rparr>
   \<and> numCategories (attrs (input staleRamp)) = Some 5
   \<and> computeTextureIfNeeded exampleEnv staleRamp = Inr (sizeTable, staleRamp)
   \<and> texCategories staleRamp = Val (Some 3)
   \<and> maxKey staleRamp = Num 2
   \<and> Ramp_eval exampleEnv staleRamp [(''kind'', Num 2)] = Inr (NumberV (Num 10), staleRamp)
   \<and> Ramp_eval exampleEnv (kindRamp kinds5) [(''kind'', Num 2)]
       = Inr (NumberV (Num 6), kindRampBuilt kinds5)"
proof -
  have same: "staleRamp\<lparr> palette := palette staleRamp \<rparr> = staleRamp"
    "(kindRamp kinds5)\<lparr> palette := palette (kindRamp kinds5) \<rparr> = kindRamp kinds5"
    by simp_all
  have l: "length sizeTable = 256" using sizeTable_ends by simp
  have e1: "Ramp_eval exampleEnv staleRamp [(''kind'', Num 2)] = Inr (NumberV (Num 10), staleRamp)"
    by (simp add: Ramp_eval_def staleRamp_fields same staleRamp_table bindE_def kindInput_fields
        jsub_def l getValue_sizeTable_one)
  have b: "input (kindRampBuilt kinds5) = kindInput kinds5" "minKey (kindRampBuilt kinds5) = Num 0"
    "maxKey (kindRampBuilt kinds5) = Num 4" "rtype (kindRampBuilt kinds5) = RAMP_NUMBER"
    by (simp_all add: kindRampBuilt_def kindRamp_fields kinds5_def)
  have e2: "Ramp_eval exampleEnv (kindRamp kinds5) [(''kind'', Num 2)]
       = Inr (NumberV (Num 6), kindRampBuilt kinds5)"
    by (simp add: Ramp_eval_def kindRamp_fields same kindRamp_table bindE_def b kindInput_fields
        jsub_def l getValue_sizeTable_half)
  have n: "numCategories (attrs (input staleRamp)) = Some 5"
    by (simp add: staleRamp_fields kindInput_fields kinds5_def)
  show ?thesis
    by (intro conjI)
       (rule kindRamp_table, rule staleRamp_def, rule n, rule staleRamp_table,
        rule staleRamp_fields(8), rule staleRamp_fields(6), rule e1, rule e2)
qed

text \<open>
  The sibling \<open>_computeGLTextureIfNeeded\<close> does compare the category counts: it makes a new
  GL texture for the five categories, and fills it with the table cached for three.
\<close>

lemma GL_texture_refilled_with_cached_table:
  "computeGLTextureIfNeeded exampleEnv (staleRamp\<lparr> GLtexCategories := Val (Some 3) \<rparr>)
     = Inr (staleRamp\<lparr> GLtexCategories := Val (Some 5), texture := Some sizeTable \<rparr>)"
proof -
  have t: "computeTextureIfNeeded exampleEnv (staleRamp\<lparr> GLtexCategories := Val (Some 3) \<rparr>)
      = Inr (sizeTable, staleRamp\<lparr> GLtexCategories := Val (Some 3) \<rparr>)"
    by (simp add: computeTextureIfNeeded_def staleRamp_fields)
  show ?thesis
    by (simp add: computeGLTextureIfNeeded_def t bindE_def staleRamp_fields kindInput_fields kinds5_def)
qed

end
